theory Spec2Isabelle
  imports Complex_Main "HOL-Library.AList"
begin

section \<open>Data model (models.py)\<close>

text \<open>
  The enums of models.py. Each is a \<open>str\<close>-valued Python Enum; the pydantic models store
  the enum value, and every comparison in the code is against an enum member, so a
  datatype with one constructor per member is the value space.
\<close>

datatype ConstraintSignal = PASS | VIOLATED

datatype RiskSignal = MANAGED | CATASTROPHIC

datatype ROISignal = POSITIVE | NEGATIVE

datatype DecisionVerdict = APPROVED | CAUTION | BLOCKED

text \<open>
  The sensor outputs. \<open>YellowSensorOutput\<close> has the sentence only; the green, red and
  blue outputs have the sentence and a signal of their own enum, written here as the
  record extended by a \<open>signal\<close> field.
\<close>

record YellowSensorOutput =
  sentence :: string

record 's SignalSensorOutput = YellowSensorOutput +
  signal :: 's

type_synonym GreenSensorOutput = "ConstraintSignal SignalSensorOutput"
type_synonym RedSensorOutput = "RiskSignal SignalSensorOutput"
type_synonym BlueSensorOutput = "ROISignal SignalSensorOutput"

record SensorCouncilOutput =
  green :: GreenSensorOutput
  red :: RedSensorOutput
  blue :: BlueSensorOutput
  yellow :: YellowSensorOutput

text \<open>
  \<open>DecisionReason\<close> has the fields constraint, risk, logic and upside; the dictionary of
  scores has the keys constraint, risk, roi and overall. Field names are global in a
  theory, so the two records carry a prefix.
\<close>

record DecisionReason =
  reason_constraint :: string
  reason_risk :: string
  reason_logic :: string
  reason_upside :: string

record Scores =
  score_constraint :: int
  score_risk :: int
  score_roi :: int
  score_overall :: int

record DecisionCard =
  verdict :: DecisionVerdict
  blocking_reason :: "string option"
  reasons :: DecisionReason
  scores :: Scores

datatype IrreversibleType = YES | NO | PARTIAL

datatype BiasLevel = LOW | MEDIUM | HIGH

record DecisionObject =
  goal :: string
  cost :: string
  risk :: string
  irreversible :: IrreversibleType

text \<open>
  \<open>extract_decision_object\<close> returns a \<open>CompleteDecision\<close> or an \<open>IncompleteDecision\<close>;
  the \<open>complete\<close> flag of the two models is the constructor.
\<close>

datatype GatekeeperResult =
    IncompleteDecision (missing_field: string) (question: string)
  | CompleteDecision (decision_object: DecisionObject)

record BiasAnalysis =
  bias_score :: int
  bias_level :: BiasLevel
  flagged_phrases :: "string list"
  suggestion :: "string option"

section \<open>Values of the Python runtime\<close>

text \<open>
  Exceptions are values. \<open>ValueError\<close> carries the message the code builds; \<open>LMError\<close> is
  an exception raised by the language-model client, with its text; the others are raised
  by the runtime (\<open>AttributeError\<close>: a method called on a value that does not have it;
  \<open>TypeError\<close>: an operator on values it is not defined on; \<open>KeyError\<close>: a missing
  dictionary key; \<open>ValidationError\<close>: a pydantic model refusing a field;
  \<open>OtherLoadsError\<close>: an exception of \<open>json.loads\<close> that is not a \<open>JSONDecodeError\<close>,
  such as the RecursionError of a text nested too deep).
\<close>

datatype error =
    ValueError string
  | LMError string
  | AttributeError
  | TypeError
  | KeyError
  | ValidationError
  | OtherLoadsError

text \<open>
  A parsed JSON value, as \<open>json.loads\<close> returns it: \<open>None\<close>, a bool, an int, a str, a
  list or a dict (an association list in insertion order, keys distinct). Numbers are
  the integers: a text with a fraction or an exponent is outside this model. Strings
  are sequences of code points below 256.
\<close>

datatype json =
    JNull
  | JBool bool
  | JInt int
  | JStr string
  | JArr "json list"
  | JObj "(string \<times> json) list"

text \<open>
  What a call of \<open>json.loads\<close> does: it returns a value, raises \<open>JSONDecodeError\<close>, or
  raises another exception. The code catches the first kind only in some places and
  every exception in others, so the two failures are kept apart.
\<close>

datatype load_result = Loaded json | JSONDecodeError | LoadsRaised

text \<open>Truthiness of a value, as \<open>if value\<close> and \<open>not value\<close> test it.\<close>

fun truthy :: "json \<Rightarrow> bool" where
  "truthy JNull = False"
| "truthy (JBool b) = b"
| "truthy (JInt n) = (n \<noteq> 0)"
| "truthy (JStr s) = (s \<noteq> [])"
| "truthy (JArr xs) = (xs \<noteq> [])"
| "truthy (JObj kv) = (kv \<noteq> [])"

text \<open>
  \<open>d.get(k, default)\<close>: only a dict has the method; on any other value the call raises
  AttributeError. \<open>d[k]\<close> raises KeyError on a missing key.
\<close>

definition dict_get :: "json \<Rightarrow> string \<Rightarrow> json \<Rightarrow> error + json" where
  "dict_get d k dflt =
     (case d of
        JObj kv \<Rightarrow> Inr (case map_of kv k of Some v \<Rightarrow> v | None \<Rightarrow> dflt)
      | _ \<Rightarrow> Inl AttributeError)"

definition dict_item :: "json \<Rightarrow> string \<Rightarrow> error + json" where
  "dict_item d k =
     (case d of
        JObj kv \<Rightarrow> (case map_of kv k of Some v \<Rightarrow> Inr v | None \<Rightarrow> Inl KeyError)
      | _ \<Rightarrow> Inl TypeError)"

text \<open>
  A \<open>str\<close> method (\<open>strip\<close>, \<open>upper\<close>, \<open>lower\<close>, \<open>startswith\<close>) called on a value: the
  string itself, or AttributeError when the value is not a string.
\<close>

definition as_str :: "json \<Rightarrow> error + string" where
  "as_str v = (case v of JStr s \<Rightarrow> Inr s | _ \<Rightarrow> Inl AttributeError)"

section \<open>Strings: the methods and regular expressions the parsers use\<close>

definition code_point :: "char \<Rightarrow> nat" where
  "code_point c = of_char c"

text \<open>\<open>str.isspace\<close> on a code point below 256; also the class \<open>\s\<close> of \<open>re\<close>.\<close>

definition isspace :: "char \<Rightarrow> bool" where
  "isspace c =
     (c \<in> set [CHR 0x09, CHR 0x0A, CHR 0x0B, CHR 0x0C, CHR 0x0D, CHR 0x1C, CHR 0x1D,
                CHR 0x1E, CHR 0x1F, CHR 0x20, CHR 0x85, CHR 0xA0])"

definition strip :: "string \<Rightarrow> string" where
  "strip s = rev (dropWhile isspace (rev (dropWhile isspace s)))"

text \<open>
  \<open>str.upper\<close> and \<open>str.lower\<close> on code points below 256. The small letters a to z and
  those of Latin-1 (E0 to FE but F7) have their capital 32 below; the sharp s (DF) has
  the two letters SS. The capitals of the micro sign (B5) and of y with diaeresis (FF)
  lie above 255: they are written here as the character itself, which like them is not
  white space and not an ASCII letter, all that the code asks of the result.
\<close>

definition upper_char :: "char \<Rightarrow> string" where
  "upper_char c =
     (let n = code_point c
      in if (97 \<le> n \<and> n \<le> 122) \<or> (224 \<le> n \<and> n \<le> 254 \<and> n \<noteq> 247)
         then [char_of (n - 32)]
         else if n = 223 then ''SS''
         else [c])"

definition lower_char :: "char \<Rightarrow> char" where
  "lower_char c =
     (let n = code_point c
      in if (65 \<le> n \<and> n \<le> 90) \<or> (192 \<le> n \<and> n \<le> 222 \<and> n \<noteq> 215)
         then char_of (n + 32)
         else c)"

definition upper :: "string \<Rightarrow> string" where
  "upper s = concat (map upper_char s)"

definition lower :: "string \<Rightarrow> string" where
  "lower s = map lower_char s"

definition startswith :: "string \<Rightarrow> string \<Rightarrow> bool" where
  "startswith s pre = (take (length pre) s = pre)"

text \<open>\<open>sub in s\<close> on strings.\<close>

fun contains :: "string \<Rightarrow> string \<Rightarrow> bool" where
  "contains sub [] = (sub = [])"
| "contains sub (c # cs) = (startswith (c # cs) sub \<or> contains sub cs)"

text \<open>\<open>s.replace(old, new)\<close>, for the non-empty \<open>old\<close> of every call in the code.\<close>

fun replace :: "string \<Rightarrow> string \<Rightarrow> string \<Rightarrow> string" where
  "replace old new [] = []"
| "replace old new (c # cs) =
     (if old \<noteq> [] \<and> startswith (c # cs) old
      then new @ replace old new (drop (length old) (c # cs))
      else c # replace old new cs)"

text \<open>
  \<open>re.sub(r"```(?:json)?\s*", "", text)\<close> when \<open>ws\<close> holds (gatekeeper.py and
  bias_detector.py) and \<open>re.sub(r"```(?:json)?", "", text)\<close> when it does not
  (sensors.py): each fence, an optional \<open>json\<close> after it and, with \<open>ws\<close>, the white
  space that follows are removed, from left to right.
\<close>

function sub_fence :: "bool \<Rightarrow> string \<Rightarrow> string" where
  "sub_fence ws [] = []"
| "sub_fence ws (c # cs) =
     (if startswith (c # cs) ''```'' then
        (let r = drop 3 (c # cs);
             r1 = (if startswith r ''json'' then drop 4 r else r);
             r2 = (if ws then dropWhile isspace r1 else r1)
         in sub_fence ws r2)
      else c # sub_fence ws cs)"
  by pat_completeness auto
termination
proof (relation "measure (\<lambda>(ws, s). length s)")
  fix ws :: bool and c :: char and cs r r1 r2 :: string
  assume "r = drop 3 (c # cs)" "r1 = (if startswith r ''json'' then drop 4 r else r)"
    "r2 = (if ws then dropWhile isspace r1 else r1)"
  moreover have "length (dropWhile isspace r1) \<le> length r1"
    by (rule length_dropWhile_le)
  ultimately show "((ws, r2), (ws, c # cs)) \<in> measure (\<lambda>(ws, s). length s)"
    by (auto split: if_splits)
qed auto

text \<open>
  \<open>re.sub(r"//.*$", "", clean, flags=re.MULTILINE)\<close>: from each \<open>//\<close> to the end of its
  line, the newline kept.
\<close>

function sub_comments :: "string \<Rightarrow> string" where
  "sub_comments [] = []"
| "sub_comments (c # cs) =
     (if startswith (c # cs) ''//''
      then sub_comments (dropWhile (\<lambda>x. x \<noteq> CHR 0x0A) (drop 2 (c # cs)))
      else c # sub_comments cs)"
  by pat_completeness auto
termination
proof (relation "measure length")
  fix c :: char and cs :: string
  have "length (dropWhile (\<lambda>x. x \<noteq> CHR 0x0A) (drop 2 (c # cs))) \<le> length (drop 2 (c # cs))"
    by (rule length_dropWhile_le)
  then show "(dropWhile (\<lambda>x. x \<noteq> CHR 0x0A) (drop 2 (c # cs)), c # cs) \<in> measure length"
    by auto
qed auto

text \<open>
  \<open>re.search(r'\{.*\}', clean, re.DOTALL)\<close> with \<open>opening = {\<close> and \<open>closing = }\<close>, and
  \<open>re.search(r'\[.*\]', text, re.DOTALL)\<close> with the brackets: the match, if any, runs
  from the first opening character to the last closing character after it.
\<close>

definition search_span :: "char \<Rightarrow> char \<Rightarrow> string \<Rightarrow> string option" where
  "search_span opening closing s =
     (case dropWhile (\<lambda>x. x \<noteq> opening) s of
        [] \<Rightarrow> None
      | c # body \<Rightarrow>
          if closing \<in> set body
          then Some (c # rev (dropWhile (\<lambda>x. x \<noteq> closing) (rev body)))
          else None)"

text \<open>
  \<open>re.sub(r",\s*}", "}", clean)\<close> with \<open>closing = }\<close> and \<open>re.sub(r",\s*]", "]", clean)\<close>
  with \<open>closing = ]\<close>: a comma, white space and the closing character become the closing
  character.
\<close>

function sub_trailing_comma :: "char \<Rightarrow> string \<Rightarrow> string" where
  "sub_trailing_comma closing [] = []"
| "sub_trailing_comma closing (c # cs) =
     (if c = CHR '','' then
        (case dropWhile isspace cs of
           [] \<Rightarrow> c # sub_trailing_comma closing cs
         | d # r \<Rightarrow>
             if d = closing then closing # sub_trailing_comma closing r
             else c # sub_trailing_comma closing cs)
      else c # sub_trailing_comma closing cs)"
  by pat_completeness auto
termination
proof (relation "measure (\<lambda>(closing, s). length s)")
  fix closing c d :: char and cs r :: string
  assume "dropWhile isspace cs = d # r"
  moreover have "length (dropWhile isspace cs) \<le> length cs"
    by (rule length_dropWhile_le)
  ultimately show "((closing, r), (closing, c # cs)) \<in> measure (\<lambda>(closing, s). length s)"
    by simp
qed auto

section \<open>json.loads\<close>

text \<open>
  A model of the standard library's \<open>json.loads\<close>, used only to instantiate the
  parameter \<open>loads\<close> of the repository's functions at concrete texts. It follows the
  scanner of the library: white space is blank, tab, newline and carriage return; a
  string ends at the first unescaped quote, admits the escapes of JSON and no control
  character; a number is an optional minus and digits without a leading zero; a repeated
  key keeps its first place and its last value; text after the value is an error. The
  recursion is on a fuel of twice the length of the text. The model agrees with the
  library on the texts of its domain: those whose numbers are integers (of fewer than
  4300 digits), whose four-digit escapes are below 256, that do not hold the constants NaN
  and Infinity, and that are nested less deep than the recursion limit. On a text with
  one of these the library returns a value or raises something else than a decode
  error, and the model's answer says nothing; no instance below is such a text.
\<close>

definition json_ws :: "char \<Rightarrow> bool" where
  "json_ws c = (c = CHR 0x20 \<or> c = CHR 0x09 \<or> c = CHR 0x0A \<or> c = CHR 0x0D)"

definition skip_ws :: "string \<Rightarrow> string" where
  "skip_ws s = dropWhile json_ws s"

definition is_digit :: "char \<Rightarrow> bool" where
  "is_digit c = (code_point CHR ''0'' \<le> code_point c \<and> code_point c \<le> code_point CHR ''9'')"

definition digit_val :: "char \<Rightarrow> nat" where
  "digit_val c = code_point c - code_point CHR ''0''"

definition hex_val :: "char \<Rightarrow> nat option" where
  "hex_val c =
     (if is_digit c then Some (digit_val c)
      else if code_point CHR ''a'' \<le> code_point c \<and> code_point c \<le> code_point CHR ''f'' then Some (code_point c - code_point CHR ''a'' + 10)
      else if code_point CHR ''A'' \<le> code_point c \<and> code_point c \<le> code_point CHR ''F'' then Some (code_point c - code_point CHR ''A'' + 10)
      else None)"

definition escape_char :: "char \<Rightarrow> char option" where
  "escape_char e =
     (if e = CHR 0x22 then Some (CHR 0x22)
      else if e = CHR 0x5C then Some (CHR 0x5C)
      else if e = CHR ''/'' then Some (CHR ''/'')
      else if e = CHR ''b'' then Some (CHR 0x08)
      else if e = CHR ''f'' then Some (CHR 0x0C)
      else if e = CHR ''n'' then Some (CHR 0x0A)
      else if e = CHR ''r'' then Some (CHR 0x0D)
      else if e = CHR ''t'' then Some (CHR 0x09)
      else None)"

fun scanstring :: "string \<Rightarrow> (string \<times> string) option" where
  "scanstring [] = None"
| "scanstring (c # cs) =
     (if c = CHR 0x22 then Some ([], cs)
      else if c = CHR 0x5C then
        (case cs of
           [] \<Rightarrow> None
         | e # r \<Rightarrow>
             if e = CHR ''u'' then
               (case r of
                  h1 # h2 # h3 # h4 # r' \<Rightarrow>
                    (case (hex_val h1, hex_val h2, hex_val h3, hex_val h4) of
                       (Some a, Some b, Some c', Some d) \<Rightarrow>
                         (let n = ((a * 16 + b) * 16 + c') * 16 + d
                          in if n < 256
                             then map_option (\<lambda>(str, t). (char_of n # str, t)) (scanstring r')
                             else None)
                     | _ \<Rightarrow> None)
                | _ \<Rightarrow> None)
             else
               (case escape_char e of
                  None \<Rightarrow> None
                | Some x \<Rightarrow> map_option (\<lambda>(str, t). (x # str, t)) (scanstring r)))
      else if code_point c < 32 then None
      else map_option (\<lambda>(str, t). (c # str, t)) (scanstring cs))"

definition digits_val :: "string \<Rightarrow> int" where
  "digits_val ds = int (foldl (\<lambda>n d. 10 * n + digit_val d) 0 ds)"

definition is_float_tail :: "string \<Rightarrow> bool" where
  "is_float_tail r =
     (case r of
        [] \<Rightarrow> False
      | c # t \<Rightarrow>
          if c = CHR ''.'' then (case t of [] \<Rightarrow> False | d # _ \<Rightarrow> is_digit d)
          else if c = CHR ''e'' \<or> c = CHR ''E'' then
            (case t of
               [] \<Rightarrow> False
             | d # u \<Rightarrow>
                 if d = CHR ''+'' \<or> d = CHR ''-'' then (case u of [] \<Rightarrow> False | x # _ \<Rightarrow> is_digit x)
                 else is_digit d)
          else False)"

definition scan_number :: "string \<Rightarrow> (json \<times> string) option" where
  "scan_number s =
     (let neg = (case s of [] \<Rightarrow> False | c # _ \<Rightarrow> c = CHR ''-'');
          body = (if neg then tl s else s)
      in case body of
           [] \<Rightarrow> None
         | d # r \<Rightarrow>
             if \<not> is_digit d then None
             else
               (let ds = (if d = CHR ''0'' then [d] else d # takeWhile is_digit r);
                    rest = drop (length ds) body;
                    n = digits_val ds
                in if is_float_tail rest then None
                   else Some (JInt (if neg then - n else n), rest)))"

fun scan_once :: "nat \<Rightarrow> string \<Rightarrow> (json \<times> string) option"
  and scan_array :: "nat \<Rightarrow> json list \<Rightarrow> string \<Rightarrow> (json \<times> string) option"
  and scan_object :: "nat \<Rightarrow> (string \<times> json) list \<Rightarrow> string \<Rightarrow> (json \<times> string) option"
where
  "scan_once 0 s = None"
| "scan_once (Suc n) s =
     (case s of
        [] \<Rightarrow> None
      | c # r \<Rightarrow>
          if c = CHR 0x22 then
            (case scanstring r of None \<Rightarrow> None | Some (str, r') \<Rightarrow> Some (JStr str, r'))
          else if c = CHR ''{'' then
            (case skip_ws r of
               [] \<Rightarrow> None
             | d # r' \<Rightarrow> if d = CHR ''}'' then Some (JObj [], r') else scan_object n [] (d # r'))
          else if c = CHR ''['' then
            (case skip_ws r of
               [] \<Rightarrow> None
             | d # r' \<Rightarrow> if d = CHR '']'' then Some (JArr [], r') else scan_array n [] (d # r'))
          else if startswith s ''null'' then Some (JNull, drop 4 s)
          else if startswith s ''true'' then Some (JBool True, drop 4 s)
          else if startswith s ''false'' then Some (JBool False, drop 5 s)
          else scan_number s)"
| "scan_array 0 acc s = None"
| "scan_array (Suc n) acc s =
     (case scan_once n s of
        None \<Rightarrow> None
      | Some (v, r) \<Rightarrow>
          (case skip_ws r of
             [] \<Rightarrow> None
           | d # r' \<Rightarrow>
               if d = CHR '']'' then Some (JArr (acc @ [v]), r')
               else if d = CHR '','' then scan_array n (acc @ [v]) (skip_ws r')
               else None))"
| "scan_object 0 acc s = None"
| "scan_object (Suc n) acc s =
     (case s of
        [] \<Rightarrow> None
      | q # r \<Rightarrow>
          if q \<noteq> CHR 0x22 then None
          else
            (case scanstring r of
               None \<Rightarrow> None
             | Some (key, r1) \<Rightarrow>
                 (case skip_ws r1 of
                    [] \<Rightarrow> None
                  | col # r2 \<Rightarrow>
                      if col \<noteq> CHR '':'' then None
                      else
                        (case scan_once n (skip_ws r2) of
                           None \<Rightarrow> None
                         | Some (v, r3) \<Rightarrow>
                             (case skip_ws r3 of
                                [] \<Rightarrow> None
                              | d # r4 \<Rightarrow>
                                  if d = CHR ''}'' then Some (JObj (AList.update key v acc), r4)
                                  else if d = CHR '','' then
                                    scan_object n (AList.update key v acc) (skip_ws r4)
                                  else None)))))"

definition json_loads :: "string \<Rightarrow> load_result" where
  "json_loads s =
     (case scan_once (Suc (2 * length s)) (skip_ws s) of
        None \<Rightarrow> JSONDecodeError
      | Some (v, r) \<Rightarrow> if skip_ws r = [] then Loaded v else JSONDecodeError)"

section \<open>InputGatekeeper (gatekeeper.py)\<close>

text \<open>
  \<open>_repair_truncated_json\<close>, the same text in gatekeeper.py, bias_detector.py and
  sensors.py. \<open>scan_quote\<close> is the body of its loop over the characters: the pair is
  \<open>(in_string, last_char)\<close>, \<open>last_char\<close> being \<open>None\<close> for the empty string it starts
  from. \<open>']' * n\<close> is empty for a negative \<open>n\<close>.
\<close>

definition scan_quote :: "bool \<times> char option \<Rightarrow> char \<Rightarrow> bool \<times> char option" where
  "scan_quote st char =
     (case st of (in_string, last_char) \<Rightarrow>
        ((if char = CHR 0x22 \<and> last_char \<noteq> Some (CHR 0x5C) then \<not> in_string
          else in_string),
         Some char))"

definition repair_truncated_json :: "string \<Rightarrow> string option" where
  "repair_truncated_json text0 =
     (if CHR ''{'' \<notin> set text0 then None
      else
        (let text = dropWhile (\<lambda>x. x \<noteq> CHR ''{'') text0;
             open_braces = int (count_list text CHR ''{'') - int (count_list text CHR ''}'');
             open_brackets = int (count_list text CHR ''['') - int (count_list text CHR '']'');
             in_string = fst (foldl scan_quote (False, None) text)
         in Some (text @ (if in_string then [CHR 0x22] else [])
                    @ replicate (nat open_brackets) CHR '']''
                    @ replicate (nat open_braces) CHR ''}'')))"

text \<open>
  The steps the three parsers share. \<open>strip_fences\<close> is step 1 (\<open>ws\<close> as in
  \<open>sub_fence\<close>); \<open>aggressive_cleanup\<close> is the text step 3 hands to \<open>json.loads\<close>;
  \<open>parse_steps\<close> is steps 2 to 4 on the text left by step 1: step 2 catches
  \<open>JSONDecodeError\<close> only, so that another exception of \<open>json.loads\<close> leaves the parser;
  steps 3 and 4 catch every exception. \<open>Inr None\<close> is the three steps having failed.
\<close>

definition strip_fences :: "bool \<Rightarrow> string \<Rightarrow> string" where
  "strip_fences ws response_text =
     (let text = strip response_text
      in if contains ''```'' text then strip (replace ''```'' [] (sub_fence ws text))
         else text)"

definition aggressive_cleanup :: "string \<Rightarrow> string" where
  "aggressive_cleanup text =
     (let clean = replace ''None'' ''null''
                    (replace ''False'' ''false'' (replace ''True'' ''true'' text));
          clean1 = sub_comments clean;
          clean2 = (case search_span CHR ''{'' CHR ''}'' clean1 of
                      Some m \<Rightarrow> m
                    | None \<Rightarrow> clean1);
          clean3 = sub_trailing_comma CHR ''}'' clean2
      in sub_trailing_comma CHR '']'' clean3)"

definition parse_steps :: "(string \<Rightarrow> load_result) \<Rightarrow> string \<Rightarrow> error + json option" where
  "parse_steps loads text =
     (case loads text of
        Loaded v \<Rightarrow> Inr (Some v)
      | LoadsRaised \<Rightarrow> Inl OtherLoadsError
      | JSONDecodeError \<Rightarrow>
          (case loads (aggressive_cleanup text) of
             Loaded v \<Rightarrow> Inr (Some v)
           | _ \<Rightarrow>
               (case repair_truncated_json text of
                  None \<Rightarrow> Inr None
                | Some repaired \<Rightarrow>
                    if repaired = [] then Inr None
                    else (case loads repaired of
                            Loaded v \<Rightarrow> Inr (Some v)
                          | _ \<Rightarrow> Inr None))))"


definition required_fields :: "string list" where
  "required_fields = [''goal'', ''cost'', ''risk'', ''irreversible'']"

definition MISSING_FIELD_QUESTIONS :: "(string \<times> string) list" where
  "MISSING_FIELD_QUESTIONS =
     [(''goal'', ''What specific outcome are you trying to achieve?''),
      (''cost'', ''What will you sacrifice or invest? (money, time, effort, etc.)''),
      (''risk'', ''What could go wrong with this decision?''),
      (''irreversible'', ''Can this decision be undone? (yes / no / partially)'')]"

text \<open>
  The loop of \<open>_validate_fields\<close> over the required fields: the first field whose value,
  stripped, is empty or is UNCLEAR in upper case; \<open>None\<close> when the loop ends.
\<close>

fun first_unclear :: "json \<Rightarrow> string list \<Rightarrow> error + string option" where
  "first_unclear extracted [] = Inr None"
| "first_unclear extracted (field # rest) =
     (case dict_get extracted field (JStr []) of
        Inl e \<Rightarrow> Inl e
      | Inr v \<Rightarrow>
          (case as_str v of
             Inl e \<Rightarrow> Inl e
           | Inr raw \<Rightarrow>
               (let value = strip raw
                in if value = [] \<or> upper value = ''UNCLEAR'' then Inr (Some field)
                   else first_unclear extracted rest)))"

definition normalize_irreversible :: "string \<Rightarrow> IrreversibleType" where
  "normalize_irreversible raw =
     (let irreversible_raw = strip (lower raw)
      in if irreversible_raw \<in> set [''yes'', ''true'', ''1''] then YES
         else if irreversible_raw \<in> set [''no'', ''false'', ''0''] then NO
         else PARTIAL)"

text \<open>A \<open>str\<close> field of a pydantic model, read from \<open>extracted[key]\<close>.\<close>

definition str_field :: "json \<Rightarrow> string \<Rightarrow> error + string" where
  "str_field extracted key =
     (case dict_item extracted key of
        Inl e \<Rightarrow> Inl e
      | Inr (JStr s) \<Rightarrow> Inr s
      | Inr _ \<Rightarrow> Inl ValidationError)"

definition validate_fields :: "json \<Rightarrow> error + GatekeeperResult" where
  "validate_fields extracted =
     (case first_unclear extracted required_fields of
        Inl e \<Rightarrow> Inl e
      | Inr (Some field) \<Rightarrow>
          (case map_of MISSING_FIELD_QUESTIONS field of
             None \<Rightarrow> Inl KeyError
           | Some q \<Rightarrow> Inr (IncompleteDecision field q))
      | Inr None \<Rightarrow>
          (case dict_item extracted ''irreversible'' of
             Inl e \<Rightarrow> Inl e
           | Inr iv \<Rightarrow>
               (case as_str iv of
                  Inl e \<Rightarrow> Inl e
                | Inr raw \<Rightarrow>
                    (case str_field extracted ''goal'' of
                       Inl e \<Rightarrow> Inl e
                     | Inr g \<Rightarrow>
                         (case str_field extracted ''cost'' of
                            Inl e \<Rightarrow> Inl e
                          | Inr c \<Rightarrow>
                              (case str_field extracted ''risk'' of
                                 Inl e \<Rightarrow> Inl e
                               | Inr r \<Rightarrow>
                                   Inr (CompleteDecision
                                     \<lparr> goal = g, cost = c, risk = r,
                                       irreversible = normalize_irreversible raw \<rparr>)))))))"

text \<open>Sequencing of steps that may raise: the first exception ends the sequence.\<close>

definition and_then :: "error + 'a \<Rightarrow> ('a \<Rightarrow> error + 'b) \<Rightarrow> error + 'b" where
  "and_then r f = (case r of Inl e \<Rightarrow> Inl e | Inr x \<Rightarrow> f x)"

section \<open>EmotionalBiasDetector (bias_detector.py)\<close>

text \<open>
  What one call of the language model gives the detector: an exception with its text
  (from the call or from reading \<open>response.text\<close>), or the response text.
\<close>

datatype LMReply = Raises string | Returns string

text \<open>\<open>_parse_json_response\<close> of the detector: the gatekeeper's, with another message.\<close>

definition bias_parse_json_response ::
  "(string \<Rightarrow> load_result) \<Rightarrow> string \<Rightarrow> error + json" where
  "bias_parse_json_response loads response_text =
     (let text = strip_fences True response_text
      in case parse_steps loads text of
           Inl e \<Rightarrow> Inl e
         | Inr (Some v) \<Rightarrow> Inr v
         | Inr None \<Rightarrow>
             Inl (ValueError (''Could not parse bias detection response: '' @ take 200 text)))"

text \<open>
  The score in \<open>score > 70\<close> and \<open>score > 40\<close>: an int, or a bool (which Python compares
  as 0 or 1); the comparison raises TypeError on any other value.
\<close>

definition score_value :: "json \<Rightarrow> error + int" where
  "score_value v =
     (case v of
        JInt n \<Rightarrow> Inr n
      | JBool b \<Rightarrow> Inr (if b then 1 else 0)
      | _ \<Rightarrow> Inl TypeError)"

text \<open>
  The constructor of the pydantic model \<open>BiasAnalysis\<close>: \<open>bias_score\<close> is declared with
  \<open>ge=0, le=100\<close>, \<open>flagged_phrases\<close> as a list of strings and \<open>suggestion\<close> as an optional
  string. Validation is taken to accept a value of the declared type only.
\<close>

fun str_list :: "json list \<Rightarrow> error + string list" where
  "str_list [] = Inr []"
| "str_list (JStr s # rest) = and_then (str_list rest) (\<lambda>ss. Inr (s # ss))"
| "str_list (_ # rest) = Inl ValidationError"

definition make_BiasAnalysis :: "int \<Rightarrow> BiasLevel \<Rightarrow> json \<Rightarrow> json \<Rightarrow> error + BiasAnalysis" where
  "make_BiasAnalysis score level phrases sugg =
     (if score < 0 \<or> 100 < score then Inl ValidationError
      else
        and_then (case phrases of JArr xs \<Rightarrow> str_list xs | _ \<Rightarrow> Inl ValidationError)
          (\<lambda>ps.
             and_then
               (case sugg of
                  JNull \<Rightarrow> Inr None
                | JStr s \<Rightarrow> Inr (Some s)
                | _ \<Rightarrow> Inl ValidationError)
               (\<lambda>sg. Inr \<lparr> bias_score = score, bias_level = level,
                            flagged_phrases = ps, suggestion = sg \<rparr>)))"

text \<open>The body of the \<open>try\<close> block of \<open>analyze\<close>, for one attempt.\<close>

definition bias_attempt :: "(string \<Rightarrow> load_result) \<Rightarrow> LMReply \<Rightarrow> error + BiasAnalysis" where
  "bias_attempt loads reply =
     (case reply of
        Raises msg \<Rightarrow> Inl (LMError msg)
      | Returns text \<Rightarrow>
          and_then (bias_parse_json_response loads text)
            (\<lambda>result.
               and_then (dict_get result ''bias_score'' (JInt 0))
                 (\<lambda>raw.
                    and_then (score_value raw)
                      (\<lambda>score.
                         let level = (if score > 70 then HIGH
                                      else if score > 40 then MEDIUM
                                      else LOW)
                         in and_then (dict_get result ''flagged_phrases'' (JArr []))
                              (\<lambda>phrases.
                                 and_then (dict_get result ''suggestion'' JNull)
                                   (\<lambda>sugg. make_BiasAnalysis score level phrases sugg))))))"

definition bias_fallback :: BiasAnalysis where
  "bias_fallback =
     \<lparr> bias_score = 50, bias_level = MEDIUM,
       flagged_phrases = [''(Analysis unavailable - Proceeding with caution)''],
       suggestion =
         Some ''System is experiencing heavy load. Please ensure your input is objective.'' \<rparr>"

text \<open>
  \<open>str(e)\<close> of a caught exception: the message of the exceptions that carry one; the text
  the runtime gives the others is the parameter \<open>exc_text\<close>.
\<close>

definition str_exc :: "(error \<Rightarrow> string) \<Rightarrow> error \<Rightarrow> string" where
  "str_exc exc_text e =
     (case e of ValueError m \<Rightarrow> m | LMError m \<Rightarrow> m | _ \<Rightarrow> exc_text e)"

definition is_rate_limit :: "string \<Rightarrow> bool" where
  "is_rate_limit msg =
     (let error_str = lower msg
      in contains ''429'' msg \<or> contains ''rate'' error_str \<or> contains ''quota'' error_str
         \<or> contains ''resource'' error_str)"

definition bias_max_retries :: int where
  "bias_max_retries = 3"

text \<open>
  The loop of \<open>analyze\<close>: \<open>remaining\<close> iterations are left and \<open>attempt\<close> is the loop
  variable; \<open>replies attempt\<close> is what the language model gives at that attempt.
\<close>

fun bias_attempts ::
  "(string \<Rightarrow> load_result) \<Rightarrow> (error \<Rightarrow> string) \<Rightarrow> (nat \<Rightarrow> LMReply) \<Rightarrow> nat \<Rightarrow> nat
     \<Rightarrow> BiasAnalysis" where
  "bias_attempts loads exc_text replies 0 attempt = bias_fallback"
| "bias_attempts loads exc_text replies (Suc remaining) attempt =
     (case bias_attempt loads (replies attempt) of
        Inr analysis \<Rightarrow> analysis
      | Inl e \<Rightarrow>
          if is_rate_limit (str_exc exc_text e) \<and> int attempt < bias_max_retries - 1
          then bias_attempts loads exc_text replies remaining (Suc attempt)
          else bias_fallback)"

definition analyze_bias ::
  "bool \<Rightarrow> (string \<Rightarrow> load_result) \<Rightarrow> (error \<Rightarrow> string) \<Rightarrow> (nat \<Rightarrow> LMReply)
     \<Rightarrow> BiasAnalysis" where
  "analyze_bias configured loads exc_text replies =
     (if \<not> configured then
        \<lparr> bias_score = 0, bias_level = LOW, flagged_phrases = [], suggestion = None \<rparr>
      else bias_attempts loads exc_text replies (nat bias_max_retries) 0)"

section \<open>SensorCouncil (sensors.py)\<close>

text \<open>
  What one call of the language model gives the council: the call raises; the response
  carries a block reason; reading \<open>response.text\<close> raises, with the text of the
  exception; or the response text. (The client of the repository, gemini_client.py,
  raises on \<open>response.text\<close> only when a block reason is set, so it never gives the
  third; the council handles it all the same.)
\<close>

datatype SensorReply = CallFails | Blocked string | NoText string | Text string

definition get_fallback_output :: "string \<Rightarrow> SensorCouncilOutput" where
  "get_fallback_output error_msg =
     \<lparr> green = \<lparr> sentence = error_msg, signal = VIOLATED \<rparr>,
       red = \<lparr> sentence = error_msg, signal = CATASTROPHIC \<rparr>,
       blue = \<lparr> sentence = error_msg, signal = NEGATIVE \<rparr>,
       yellow = \<lparr> sentence = error_msg \<rparr> \<rparr>"

text \<open>The dictionary \<open>_parse_json\<close> returns when every step has failed.\<close>

definition parse_failure :: json where
  "parse_failure =
     JObj [(''error'', JStr ''Failed to parse AI response''),
           (''green'', JObj [(''sentence'', JStr ''Analysis unavailable - retrying may help'')]),
           (''red'', JObj [(''sentence'', JStr ''Analysis unavailable'')]),
           (''blue'', JObj [(''sentence'', JStr ''Analysis unavailable'')]),
           (''yellow'', JObj [(''sentence'', JStr ''Analysis unavailable'')])]"

text \<open>
  \<open>_parse_json\<close>. Step 5 is \<open>ast.literal_eval\<close> of the standard library, the parameter
  \<open>literal_eval\<close> (\<open>None\<close> when it raises; the step catches every exception). \<open>Inl\<close> is
  the exception that leaves step 2.
\<close>

definition parse_json ::
  "(string \<Rightarrow> load_result) \<Rightarrow> (string \<Rightarrow> json option) \<Rightarrow> string \<Rightarrow> error + json" where
  "parse_json loads literal_eval text0 =
     (let text = strip_fences False text0
      in case parse_steps loads text of
           Inl e \<Rightarrow> Inl e
         | Inr (Some v) \<Rightarrow> Inr v
         | Inr None \<Rightarrow>
             (case literal_eval text of Some v \<Rightarrow> Inr v | None \<Rightarrow> Inr parse_failure))"

text \<open>The enum classes as \<open>_parse_enum\<close> calls them: the member of a value, if any.\<close>

definition ConstraintSignal_of :: "string \<Rightarrow> ConstraintSignal option" where
  "ConstraintSignal_of v =
     (if v = ''PASS'' then Some PASS else if v = ''VIOLATED'' then Some VIOLATED else None)"

definition RiskSignal_of :: "string \<Rightarrow> RiskSignal option" where
  "RiskSignal_of v =
     (if v = ''MANAGED'' then Some MANAGED
      else if v = ''CATASTROPHIC'' then Some CATASTROPHIC else None)"

definition ROISignal_of :: "string \<Rightarrow> ROISignal option" where
  "ROISignal_of v =
     (if v = ''POSITIVE'' then Some POSITIVE
      else if v = ''NEGATIVE'' then Some NEGATIVE else None)"

text \<open>
  \<open>_parse_enum\<close>: a falsy value gives the default; \<open>upper\<close> on a value that is not a
  string raises AttributeError, which the function does not catch; the ValueError of the
  enum class on an unknown name gives the default.
\<close>

definition parse_enum :: "(string \<Rightarrow> 's option) \<Rightarrow> json \<Rightarrow> 's \<Rightarrow> error + 's" where
  "parse_enum enum_cls value dflt =
     (if \<not> truthy value then Inr dflt
      else
        and_then (as_str value)
          (\<lambda>s. case enum_cls (strip (upper s)) of
                 Some member \<Rightarrow> Inr member
               | None \<Rightarrow> Inr dflt))"

text \<open>
  The test after parsing: \<open>data.keys()\<close> (in the debug print) raises on a value that is
  not a dict; then \<open>"error" in data and not data.get("green", {}).get("sentence",
  "").startswith("The limiting")\<close>.
\<close>

definition parse_error_detected :: "json \<Rightarrow> error + bool" where
  "parse_error_detected data =
     (case data of
        JObj kv \<Rightarrow>
          if map_of kv ''error'' = None then Inr False
          else
            and_then (dict_get data ''green'' (JObj []))
              (\<lambda>g. and_then (dict_get g ''sentence'' (JStr []))
                     (\<lambda>v. and_then (as_str v)
                            (\<lambda>s. Inr (\<not> startswith s ''The limiting''))))
      | _ \<Rightarrow> Inl AttributeError)"

text \<open>
  \<open>data.get(name, {}).get("sentence", default)\<close> as the \<open>str\<close> field of a sensor output,
  and \<open>_parse_enum\<close> of \<open>data.get(name, {}).get("signal")\<close>.
\<close>

definition sensor_sentence :: "json \<Rightarrow> string \<Rightarrow> string \<Rightarrow> error + string" where
  "sensor_sentence data name dflt =
     and_then (dict_get data name (JObj []))
       (\<lambda>sub. and_then (dict_get sub ''sentence'' (JStr dflt))
                (\<lambda>v. case v of JStr s \<Rightarrow> Inr s | _ \<Rightarrow> Inl ValidationError))"

definition sensor_signal :: "(string \<Rightarrow> 's option) \<Rightarrow> json \<Rightarrow> string \<Rightarrow> 's \<Rightarrow> error + 's" where
  "sensor_signal enum_cls data name dflt =
     and_then (dict_get data name (JObj []))
       (\<lambda>sub. and_then (dict_get sub ''signal'' JNull)
                (\<lambda>v. parse_enum enum_cls v dflt))"

text \<open>
  The construction of the output from the parsed dictionary. \<open>str_of\<close> is Python's
  \<open>str()\<close> of a parsed value, used in the default of the green sentence.
\<close>

definition build_output :: "(json \<Rightarrow> string) \<Rightarrow> json \<Rightarrow> error + SensorCouncilOutput" where
  "build_output str_of data =
     and_then (dict_get data ''error'' (JStr ''Unknown error'')) (\<lambda>err.
     and_then (sensor_sentence data ''green'' (''Green Sensor Failed: '' @ str_of err)) (\<lambda>gs.
     and_then (sensor_signal ConstraintSignal_of data ''green'' VIOLATED) (\<lambda>gv.
     and_then (sensor_sentence data ''red'' ''Red Sensor Failed'') (\<lambda>rs.
     and_then (sensor_signal RiskSignal_of data ''red'' CATASTROPHIC) (\<lambda>rv.
     and_then (sensor_sentence data ''blue'' ''Blue Sensor Failed'') (\<lambda>bs.
     and_then (sensor_signal ROISignal_of data ''blue'' NEGATIVE) (\<lambda>bv.
     and_then (sensor_sentence data ''yellow'' ''Yellow Sensor Failed'') (\<lambda>ys.
       Inr \<lparr> green = \<lparr> sentence = gs, signal = gv \<rparr>,
             red = \<lparr> sentence = rs, signal = rv \<rparr>,
             blue = \<lparr> sentence = bs, signal = bv \<rparr>,
             yellow = \<lparr> sentence = ys \<rparr> \<rparr>))))))))"

text \<open>
  The output the construction gives on \<open>parse_failure\<close>: the sentences of that
  dictionary, and the default of each signal, the dictionary having none.
\<close>

definition parse_failure_output :: SensorCouncilOutput where
  "parse_failure_output =
     \<lparr> green = \<lparr> sentence = ''Analysis unavailable - retrying may help'', signal = VIOLATED \<rparr>,
       red = \<lparr> sentence = ''Analysis unavailable'', signal = CATASTROPHIC \<rparr>,
       blue = \<lparr> sentence = ''Analysis unavailable'', signal = NEGATIVE \<rparr>,
       yellow = \<lparr> sentence = ''Analysis unavailable'' \<rparr> \<rparr>"

text \<open>
  One iteration of the loop of \<open>analyze\<close>: \<open>Some\<close> is the value returned, \<open>None\<close> is the
  next iteration (a \<open>continue\<close>, or an exception caught by the \<open>except\<close> of the loop).
\<close>

definition sensor_attempt ::
  "(string \<Rightarrow> load_result) \<Rightarrow> (string \<Rightarrow> json option) \<Rightarrow> (json \<Rightarrow> string) \<Rightarrow> int \<Rightarrow> nat
     \<Rightarrow> SensorReply \<Rightarrow> SensorCouncilOutput option" where
  "sensor_attempt loads literal_eval str_of max_retries attempt reply =
     (case reply of
        CallFails \<Rightarrow> None
      | Blocked reason \<Rightarrow> Some (get_fallback_output (''Blocked: '' @ reason))
      | NoText msg \<Rightarrow>
          if int attempt < max_retries then None
          else Some (get_fallback_output (''No text in response (Safety?): '' @ msg))
      | Text text \<Rightarrow>
          (case parse_json loads literal_eval text of
             Inl e \<Rightarrow> None
           | Inr data \<Rightarrow>
               (case parse_error_detected data of
                  Inl e \<Rightarrow> None
                | Inr detected \<Rightarrow>
                    if detected \<and> int attempt < max_retries then None
                    else (case build_output str_of data of
                            Inl e \<Rightarrow> None
                          | Inr out \<Rightarrow> Some out))))"

fun sensor_attempts ::
  "(string \<Rightarrow> load_result) \<Rightarrow> (string \<Rightarrow> json option) \<Rightarrow> (json \<Rightarrow> string) \<Rightarrow> int
     \<Rightarrow> (nat \<Rightarrow> SensorReply) \<Rightarrow> nat \<Rightarrow> nat \<Rightarrow> SensorCouncilOutput" where
  "sensor_attempts loads literal_eval str_of max_retries replies 0 attempt =
     get_fallback_output ''Analysis failed after multiple attempts. Please try again.''"
| "sensor_attempts loads literal_eval str_of max_retries replies (Suc remaining) attempt =
     (case sensor_attempt loads literal_eval str_of max_retries attempt (replies attempt) of
        Some out \<Rightarrow> out
      | None \<Rightarrow>
          sensor_attempts loads literal_eval str_of max_retries replies remaining (Suc attempt))"

definition analyze_sensors ::
  "bool \<Rightarrow> (string \<Rightarrow> load_result) \<Rightarrow> (string \<Rightarrow> json option) \<Rightarrow> (json \<Rightarrow> string)
     \<Rightarrow> (nat \<Rightarrow> SensorReply) \<Rightarrow> int \<Rightarrow> error + SensorCouncilOutput" where
  "analyze_sensors configured loads literal_eval str_of replies max_retries =
     (if \<not> configured then Inl (ValueError ''Gemini API not configured. Set GEMINI_API_KEY.'')
      else Inr (sensor_attempts loads literal_eval str_of max_retries replies
                  (nat (max_retries + 1)) 0))"

section \<open>StrategicOptimizer (optimizer.py)\<close>

definition fallback_suggestions :: "json list" where
  "fallback_suggestions =
     [JStr ''Increase your safety margin by at least 30%'',
      JStr ''Extend timeline by 3-6 months for proper preparation'',
      JStr ''Reduce initial commitment to 50% of planned resources'']"

text \<open>
  \<open>_parse_suggestions\<close>. The items of the list are returned as parsed: the code does not
  look at their type. The first \<open>try\<close> catches \<open>JSONDecodeError\<close> only, so that another
  exception of \<open>json.loads\<close> leaves the function (\<open>Inl\<close>); the second catches them all.
\<close>

definition parse_suggestions :: "(string \<Rightarrow> load_result) \<Rightarrow> string \<Rightarrow> error + json list" where
  "parse_suggestions loads text =
     (case loads text of
        LoadsRaised \<Rightarrow> Inl OtherLoadsError
      | direct \<Rightarrow>
          (case (case direct of
                   Loaded (JArr suggestions) \<Rightarrow>
                     if length suggestions \<ge> 1 then Some (take 3 suggestions) else None
                 | _ \<Rightarrow> None) of
             Some result \<Rightarrow> Inr result
           | None \<Rightarrow>
               (case search_span CHR ''['' CHR '']'' text of
                  None \<Rightarrow> Inr fallback_suggestions
                | Some m \<Rightarrow>
                    (case loads m of
                       Loaded (JArr suggestions) \<Rightarrow> Inr (take 3 suggestions)
                     | _ \<Rightarrow> Inr fallback_suggestions))))"

section \<open>RateLimiter (rate_limiter.py)\<close>

text \<open>
  The limiter's state. \<open>requests\<close> is a \<open>defaultdict(list)\<close>: every identifier has a list
  of timestamps, empty until a request is recorded. A timestamp is a value of
  \<open>time.time()\<close>, a double, written as the rational number it is. \<open>check\<close> reads the
  clock once; the reading is the argument \<open>now\<close>.
\<close>

record RateLimiter =
  max_requests :: int
  window_seconds :: int
  requests :: "string \<Rightarrow> rat list"

text \<open>\<open>int(x)\<close> truncates towards zero.\<close>

definition py_int :: "rat \<Rightarrow> int" where
  "py_int x = (if 0 \<le> x then \<lfloor>x\<rfloor> else \<lceil>x\<rceil>)"

text \<open>\<open>min\<close> of a list raises ValueError on the empty list.\<close>

definition py_min :: "rat list \<Rightarrow> error + rat" where
  "py_min xs =
     (case xs of
        [] \<Rightarrow> Inl (ValueError ''min() arg is an empty sequence'')
      | x # rest \<Rightarrow> Inr (fold min rest x))"

text \<open>
  \<open>check\<close>. The sums and differences of the code are operations on doubles: each gives
  the double that the rounding \<open>fl\<close> makes of the exact result. The rounding is a
  parameter; what the theorems ask of it is stated with them. Comparisons, \<open>min\<close> and
  \<open>int\<close> are exact on doubles.
\<close>

definition check ::
  "(rat \<Rightarrow> rat) \<Rightarrow> RateLimiter \<Rightarrow> string \<Rightarrow> rat \<Rightarrow> error + (RateLimiter \<times> bool \<times> int)" where
  "check fl rl identifier now =
     (let window_start = fl (now - of_int (window_seconds rl));
          kept = filter (\<lambda>ts. ts > window_start) (requests rl identifier);
          rl1 = rl \<lparr> requests := (requests rl)(identifier := kept) \<rparr>
      in if int (length kept) < max_requests rl then
           Inr (rl1 \<lparr> requests := (requests rl1)(identifier := kept @ [now]) \<rparr>, True, 0)
         else
           and_then (py_min kept)
             (\<lambda>oldest.
                let retry_after =
                      py_int (fl (fl (oldest + of_int (window_seconds rl)) - now)) + 1
                in Inr (rl1, False, max 1 retry_after)))"

text \<open>Successive checks of one identifier, at the given clock readings.\<close>

fun checks ::
  "(rat \<Rightarrow> rat) \<Rightarrow> RateLimiter \<Rightarrow> string \<Rightarrow> rat list
     \<Rightarrow> error + (RateLimiter \<times> (bool \<times> int) list)" where
  "checks fl rl identifier [] = Inr (rl, [])"
| "checks fl rl identifier (now # later) =
     and_then (check fl rl identifier now)
       (\<lambda>(rl1, answer).
          and_then (checks fl rl1 identifier later)
            (\<lambda>(rl2, answers). Inr (rl2, answer # answers)))"

text \<open>
  The rounding of an operation whose exact result is a double: none. It stands for the
  arithmetic of doubles in the instances below, whose sums and differences are doubles.
\<close>

definition exact :: "rat \<Rightarrow> rat" where
  "exact x = x"

section \<open>SignalExtractor (extractor.py)\<close>

text \<open>
  The dictionary returned by \<open>SignalExtractor.extract\<close>, one field per key. The function
  is named \<open>extract_signals\<close> here, \<open>extract\<close> being a command of Isabelle.
\<close>

record Extracted =
  constraint_signal :: ConstraintSignal
  risk_signal :: RiskSignal
  roi_signal :: ROISignal
  constraint_sentence :: string
  risk_sentence :: string
  roi_sentence :: string
  upside_sentence :: string
  extracted_scores :: Scores

definition calculate_scores :: "SensorCouncilOutput \<Rightarrow> Scores" where
  "calculate_scores sensors =
     (let constraint_score = (if signal (green sensors) = PASS then 100 else 15);
          risk_score = (if signal (red sensors) = MANAGED then 85 else 10);
          roi_score = (if signal (blue sensors) = POSITIVE then 80 else 20);
          overall =
            (if signal (green sensors) = VIOLATED then 10
             else if signal (red sensors) = CATASTROPHIC then 15
             else if signal (blue sensors) = NEGATIVE then 25
             else 90)
      in \<lparr> score_constraint = constraint_score, score_risk = risk_score,
           score_roi = roi_score, score_overall = overall \<rparr>)"

definition extract_signals :: "SensorCouncilOutput \<Rightarrow> Extracted" where
  "extract_signals sensors =
     \<lparr> constraint_signal = signal (green sensors),
       risk_signal = signal (red sensors),
       roi_signal = signal (blue sensors),
       constraint_sentence = sentence (green sensors),
       risk_sentence = sentence (red sensors),
       roi_sentence = sentence (blue sensors),
       upside_sentence = sentence (yellow sensors),
       extracted_scores = calculate_scores sensors \<rparr>"

section \<open>DecisionCore (decision_core.py)\<close>

definition apply_logic ::
  "ConstraintSignal \<Rightarrow> RiskSignal \<Rightarrow> ROISignal \<Rightarrow> DecisionReason
     \<Rightarrow> DecisionVerdict \<times> string option" where
  "apply_logic constraint risk' roi rs =
     (if constraint = VIOLATED then
        (BLOCKED, Some (''CONSTRAINT VIOLATED: '' @ reason_constraint rs))
      else if risk' = CATASTROPHIC then
        (CAUTION, Some (''HIGH RISK: '' @ reason_risk rs))
      else if roi = NEGATIVE then
        (CAUTION, Some (''NEGATIVE ROI: '' @ reason_logic rs))
      else (APPROVED, None))"

definition decide :: "Extracted \<Rightarrow> DecisionCard" where
  "decide extracted =
     (let rs = \<lparr> reason_constraint = constraint_sentence extracted,
                  reason_risk = risk_sentence extracted,
                  reason_logic = roi_sentence extracted,
                  reason_upside = upside_sentence extracted \<rparr>;
          (v, why) = apply_logic (constraint_signal extracted) (risk_signal extracted)
                       (roi_signal extracted) rs
      in \<lparr> verdict = v, blocking_reason = why, reasons = rs,
           scores = extracted_scores extracted \<rparr>)"

section \<open>The field validation as specified\<close>

text \<open>
  The validation in the words of the specification, for comparison with
  \<open>validate_fields\<close>: the four fields in the order goal, cost, risk, irreversible; a
  field is unclear when its value (empty when the key is absent), with the white space
  around it removed, is empty or is UNCLEAR whatever the case of its letters; the first
  unclear field is reported with its question; with no unclear field the decision is
  complete, and the irreversibility, in lower case and without the white space around
  it, is YES for yes, true and 1, NO for no, false and 0, and PARTIAL for anything else.
\<close>

definition field_text :: "(string \<times> json) list \<Rightarrow> string \<Rightarrow> string" where
  "field_text kv k = (case map_of kv k of Some (JStr s) \<Rightarrow> s | _ \<Rightarrow> [])"

definition is_unclear :: "string \<Rightarrow> bool" where
  "is_unclear v = (strip v = [] \<or> upper (strip v) = ''UNCLEAR'')"

definition spec_irreversible :: "string \<Rightarrow> IrreversibleType" where
  "spec_irreversible raw =
     (if strip (lower raw) = ''yes'' \<or> strip (lower raw) = ''true'' \<or> strip (lower raw) = ''1''
      then YES
      else if strip (lower raw) = ''no'' \<or> strip (lower raw) = ''false''
              \<or> strip (lower raw) = ''0''
      then NO
      else PARTIAL)"

definition spec_validate_fields :: "(string \<times> json) list \<Rightarrow> GatekeeperResult" where
  "spec_validate_fields kv =
     (if is_unclear (field_text kv ''goal'') then
        IncompleteDecision ''goal'' ''What specific outcome are you trying to achieve?''
      else if is_unclear (field_text kv ''cost'') then
        IncompleteDecision ''cost''
          ''What will you sacrifice or invest? (money, time, effort, etc.)''
      else if is_unclear (field_text kv ''risk'') then
        IncompleteDecision ''risk'' ''What could go wrong with this decision?''
      else if is_unclear (field_text kv ''irreversible'') then
        IncompleteDecision ''irreversible''
          ''Can this decision be undone? (yes / no / partially)''
      else
        CompleteDecision
          \<lparr> goal = field_text kv ''goal'', cost = field_text kv ''cost'',
            risk = field_text kv ''risk'',
            irreversible = spec_irreversible (field_text kv ''irreversible'') \<rparr>)"

section \<open>The failed attempts of the council\<close>

text \<open>
  An attempt of \<open>analyze\<close> answers the request when the response has a text that
  \<open>_parse_json\<close> reads into a dictionary which the test after parsing does not flag and
  from which the output is built. \<open>attempt_fails\<close> is every other attempt: the call
  raises, the response carries a block reason, its text cannot be read, the parser
  raises, the test after parsing raises or flags a parse error, or the construction of
  the output raises. \<open>flagged_output\<close> is the output built, if it can be, from a text
  read into a dictionary that the test after parsing flags as a parse error.
\<close>

definition attempt_fails ::
  "(string \<Rightarrow> load_result) \<Rightarrow> (string \<Rightarrow> json option) \<Rightarrow> (json \<Rightarrow> string) \<Rightarrow> SensorReply
     \<Rightarrow> bool" where
  "attempt_fails loads literal_eval str_of reply =
     (case reply of
        Text response \<Rightarrow>
          (case parse_json loads literal_eval response of
             Inl e \<Rightarrow> True
           | Inr data \<Rightarrow>
               (case parse_error_detected data of
                  Inl e \<Rightarrow> True
                | Inr detected \<Rightarrow> detected \<or> isl (build_output str_of data)))
      | _ \<Rightarrow> True)"

definition flagged_output ::
  "(string \<Rightarrow> load_result) \<Rightarrow> (string \<Rightarrow> json option) \<Rightarrow> (json \<Rightarrow> string) \<Rightarrow> SensorReply
     \<Rightarrow> SensorCouncilOutput option" where
  "flagged_output loads literal_eval str_of reply =
     (case reply of
        Text response \<Rightarrow>
          (case parse_json loads literal_eval response of
             Inl e \<Rightarrow> None
           | Inr data \<Rightarrow>
               (case parse_error_detected data of
                  Inl e \<Rightarrow> None
                | Inr detected \<Rightarrow>
                    if detected
                    then (case build_output str_of data of
                            Inl e \<Rightarrow> None
                          | Inr out \<Rightarrow> Some out)
                    else None))
      | _ \<Rightarrow> None)"

section \<open>Properties of the deterministic layers\<close>

lemma decide_verdict:
  "verdict (decide e) =
     (if constraint_signal e = VIOLATED then BLOCKED
      else if risk_signal e = CATASTROPHIC then CAUTION
      else if roi_signal e = NEGATIVE then CAUTION
      else APPROVED)"
  by (simp add: decide_def apply_logic_def Let_def split: prod.splits)

lemma decide_blocking_reason:
  "blocking_reason (decide e) =
     (if constraint_signal e = VIOLATED then
        Some (''CONSTRAINT VIOLATED: '' @ constraint_sentence e)
      else if risk_signal e = CATASTROPHIC then Some (''HIGH RISK: '' @ risk_sentence e)
      else if roi_signal e = NEGATIVE then Some (''NEGATIVE ROI: '' @ roi_sentence e)
      else None)"
  by (simp add: decide_def apply_logic_def Let_def split: prod.splits)

lemma overall_of_extract:
  "score_overall (extracted_scores (extract_signals s)) =
     (if signal (green s) = VIOLATED then 10
      else if signal (red s) = CATASTROPHIC then 15
      else if signal (blue s) = NEGATIVE then 25
      else 90)"
  by (simp add: extract_signals_def calculate_scores_def)

text \<open>
  C1. \<open>DecisionCore.decide\<close> applies its rules first match first: a VIOLATED constraint
  gives BLOCKED with the reason "CONSTRAINT VIOLATED: " followed by the constraint
  sentence; else a CATASTROPHIC risk gives CAUTION with "HIGH RISK: " and the risk
  sentence; else a NEGATIVE roi gives CAUTION with "NEGATIVE ROI: " and the logic
  sentence; else APPROVED with no reason. The verdict is BLOCKED exactly when the
  constraint is VIOLATED, whatever the risk and roi signals are.
\<close>

theorem decide_rule_priority:
  "verdict (decide e) =
     (if constraint_signal e = VIOLATED then BLOCKED
      else if risk_signal e = CATASTROPHIC then CAUTION
      else if roi_signal e = NEGATIVE then CAUTION
      else APPROVED)
   \<and> blocking_reason (decide e) =
     (if constraint_signal e = VIOLATED then
        Some (''CONSTRAINT VIOLATED: '' @ reason_constraint (reasons (decide e)))
      else if risk_signal e = CATASTROPHIC then
        Some (''HIGH RISK: '' @ reason_risk (reasons (decide e)))
      else if roi_signal e = NEGATIVE then
        Some (''NEGATIVE ROI: '' @ reason_logic (reasons (decide e)))
      else None)
   \<and> reason_constraint (reasons (decide e)) = constraint_sentence e
   \<and> reason_risk (reasons (decide e)) = risk_sentence e
   \<and> reason_logic (reasons (decide e)) = roi_sentence e
   \<and> (verdict (decide e) = BLOCKED) = (constraint_signal e = VIOLATED)"
  by (simp add: decide_def apply_logic_def Let_def split: prod.splits)

text \<open>
  C6. The scores are a fixed function of the three signals: constraint 100 for PASS and
  15 otherwise, risk 85 for MANAGED and 10 otherwise, roi 80 for POSITIVE and 20
  otherwise; overall 10 for a VIOLATED constraint, else 15 for a CATASTROPHIC risk, else
  25 for a NEGATIVE roi, else 90.
\<close>

theorem calculate_scores_fixed:
  "score_constraint (calculate_scores s) = (if signal (green s) = PASS then 100 else 15)
   \<and> score_risk (calculate_scores s) = (if signal (red s) = MANAGED then 85 else 10)
   \<and> score_roi (calculate_scores s) = (if signal (blue s) = POSITIVE then 80 else 20)
   \<and> score_overall (calculate_scores s) =
       (if signal (green s) = VIOLATED then 10
        else if signal (red s) = CATASTROPHIC then 15
        else if signal (blue s) = NEGATIVE then 25
        else 90)
   \<and> extracted_scores (extract_signals s) = calculate_scores s"
  by (simp add: calculate_scores_def extract_signals_def)

text \<open>
  C10. For every sensor output the verdict that \<open>decide\<close> computes on the extracted
  signals and the overall score that \<open>_calculate_scores\<close> computes agree: APPROVED
  exactly at 90, BLOCKED exactly at 10, CAUTION exactly at 15 or 25; and the card
  carries the scores of the extractor.
\<close>

theorem verdict_matches_overall_score:
  "(verdict (decide (extract_signals s)) = APPROVED)
     = (score_overall (calculate_scores s) = 90)
   \<and> (verdict (decide (extract_signals s)) = BLOCKED)
     = (score_overall (calculate_scores s) = 10)
   \<and> (verdict (decide (extract_signals s)) = CAUTION)
     = (score_overall (calculate_scores s) = 15 \<or> score_overall (calculate_scores s) = 25)
   \<and> scores (decide (extract_signals s)) = calculate_scores s"
proof -
  have sc: "scores (decide (extract_signals s)) = calculate_scores s"
    by (simp add: decide_def extract_signals_def Let_def split: prod.splits)
  have ov: "score_overall (calculate_scores s) =
     (if signal (green s) = VIOLATED then 10
      else if signal (red s) = CATASTROPHIC then 15
      else if signal (blue s) = NEGATIVE then 25
      else 90)"
    by (simp add: calculate_scores_def)
  have sg: "constraint_signal (extract_signals s) = signal (green s)"
    "risk_signal (extract_signals s) = signal (red s)" "roi_signal (extract_signals s) = signal (blue s)"
    by (simp_all add: extract_signals_def)
  show ?thesis
    unfolding sc ov decide_verdict sg
    by (cases "signal (green s)"; cases "signal (red s)"; cases "signal (blue s)") simp_all
qed

section \<open>Properties of the bias detector\<close>

lemma and_then_Inr_iff:
  "(and_then r f = Inr y) = (\<exists>x. r = Inr x \<and> f x = Inr y)"
  by (cases r) (simp_all add: and_then_def)

lemma make_BiasAnalysis_fields:
  assumes "make_BiasAnalysis score level phrases sugg = Inr a"
  shows "bias_score a = score" and "bias_level a = level"
    and "suggestion a = (case sugg of JStr s \<Rightarrow> Some s | _ \<Rightarrow> None)"
    and "0 \<le> score" and "score \<le> 100"
  using assms
  by (auto simp: make_BiasAnalysis_def and_then_Inr_iff split: if_splits json.splits)

text \<open>
  What a successful attempt has done: the reply was a text, the parser gave a dictionary,
  the value under \<open>bias_score\<close> (0 when absent) was a number, and the analysis carries
  that number, the level computed from it and the suggestion of the dictionary.
\<close>

lemma bias_attempt_success:
  assumes "bias_attempt loads reply = Inr a"
  shows "\<exists>response kv score.
           reply = Returns response
         \<and> bias_parse_json_response loads response = Inr (JObj kv)
         \<and> score_value (case map_of kv ''bias_score'' of Some v \<Rightarrow> v | None \<Rightarrow> JInt 0)
             = Inr score
         \<and> bias_score a = score
         \<and> bias_level a = (if score > 70 then HIGH else if score > 40 then MEDIUM else LOW)
         \<and> suggestion a
             = (case map_of kv ''suggestion'' of Some (JStr s) \<Rightarrow> Some s | _ \<Rightarrow> None)"
proof -
  from assms obtain response where r: "reply = Returns response"
    by (cases reply) (simp_all add: bias_attempt_def)
  from assms r obtain result raw score phrases sugg where
      p: "bias_parse_json_response loads response = Inr result"
    and g: "dict_get result ''bias_score'' (JInt 0) = Inr raw"
    and s: "score_value raw = Inr score"
    and u: "dict_get result ''suggestion'' JNull = Inr sugg"
    and m: "make_BiasAnalysis score
              (if score > 70 then HIGH else if score > 40 then MEDIUM else LOW) phrases sugg
            = Inr a"
    by (auto simp: bias_attempt_def and_then_Inr_iff Let_def)
  from g obtain kv where kv: "result = JObj kv"
    by (cases result) (simp_all add: dict_get_def)
  from g kv have raw: "raw = (case map_of kv ''bias_score'' of Some v \<Rightarrow> v | None \<Rightarrow> JInt 0)"
    by (simp add: dict_get_def)
  from u kv have sg: "sugg = (case map_of kv ''suggestion'' of Some v \<Rightarrow> v | None \<Rightarrow> JNull)"
    by (simp add: dict_get_def)
  have "suggestion a
          = (case map_of kv ''suggestion'' of Some (JStr s) \<Rightarrow> Some s | _ \<Rightarrow> None)"
    using make_BiasAnalysis_fields(3)[OF m] sg by (simp split: option.splits json.splits)
  with r p kv raw s make_BiasAnalysis_fields(1,2)[OF m] show ?thesis
    by auto
qed

text \<open>The loop returns the fallback or the analysis of one of its attempts.\<close>

lemma bias_attempts_result:
  "bias_attempts loads exc_text replies remaining attempt = bias_fallback
   \<or> (\<exists>i. bias_attempt loads (replies i)
             = Inr (bias_attempts loads exc_text replies remaining attempt))"
proof (induction remaining arbitrary: attempt)
  case 0
  show ?case by simp
next
  case (Suc remaining)
  show ?case
  proof (cases "bias_attempt loads (replies attempt)")
    case (Inr analysis)
    then show ?thesis by auto
  next
    case (Inl e)
    with Suc.IH [of "Suc attempt"] show ?thesis by auto
  qed
qed

lemma str_list_map_JStr: "str_list (map JStr ps) = Inr ps"
  by (induction ps) (simp_all add: and_then_def)

text \<open>
  What makes an attempt succeed: a response that the parser turns into a dictionary with
  an integer score from 0 to 100, whose flagged phrases, if any, are a list of strings
  and whose suggestion, if any, is a string or \<open>null\<close>.
\<close>

lemma bias_attempt_well_formed:
  assumes p: "bias_parse_json_response loads response = Inr (JObj kv)"
    and sc: "map_of kv ''bias_score'' = Some (JInt n)"
    and rng: "0 \<le> n" "n \<le> 100"
    and ph: "map_of kv ''flagged_phrases'' = None
             \<or> (\<exists>ps. map_of kv ''flagged_phrases'' = Some (JArr (map JStr ps)))"
    and sg: "map_of kv ''suggestion'' = None \<or> map_of kv ''suggestion'' = Some JNull
             \<or> (\<exists>s. map_of kv ''suggestion'' = Some (JStr s))"
  shows "\<exists>a. bias_attempt loads (Returns response) = Inr a \<and> bias_score a = n
           \<and> bias_level a = (if n > 70 then HIGH else if n > 40 then MEDIUM else LOW)"
proof -
  obtain ps where phr: "(case map_of kv ''flagged_phrases'' of Some v \<Rightarrow> v | None \<Rightarrow> JArr [])
      = JArr (map JStr ps)"
    using ph by (auto intro: that [of "[]"])
  obtain so where sug: "(case (case map_of kv ''suggestion'' of Some v \<Rightarrow> v | None \<Rightarrow> JNull) of
        JNull \<Rightarrow> Inr None | JStr s \<Rightarrow> Inr (Some s) | _ \<Rightarrow> Inl ValidationError) = Inr so"
    using sg by auto
  have "bias_attempt loads (Returns response)
      = Inr \<lparr> bias_score = n,
              bias_level = (if n > 70 then HIGH else if n > 40 then MEDIUM else LOW),
              flagged_phrases = ps, suggestion = so \<rparr>"
    using rng
    by (simp add: bias_attempt_def p and_then_def dict_get_def sc score_value_def Let_def
        make_BiasAnalysis_def phr sug str_list_map_JStr)
  then show ?thesis by simp
qed

lemma analyze_bias_first:
  "bias_attempt loads (replies 0) = Inr a \<Longrightarrow> analyze_bias True loads exc_text replies = a"
  by (simp add: analyze_bias_def bias_max_retries_def numeral_3_eq_3)

text \<open>
  C7. On the success path of the bias detector the level is the function of the parsed
  score: HIGH above 70, MEDIUM above 40, LOW otherwise. A response with an integer score
  from 0 to 100 (its phrases and suggestion being of the declared types) is on that
  path: the attempt returns an analysis with this score and this level, and \<open>analyze\<close>
  returns it when the attempt is the first; so 40 gives LOW, 41 and 70 give MEDIUM and
  71 gives HIGH. And whatever the response, an analysis that an attempt returns has the
  level of its score.
\<close>

theorem bias_level_from_score:
  assumes "bias_parse_json_response loads response = Inr (JObj kv)"
    and "map_of kv ''bias_score'' = Some (JInt n)"
    and "0 \<le> n" and "n \<le> 100"
    and "map_of kv ''flagged_phrases'' = None
         \<or> (\<exists>ps. map_of kv ''flagged_phrases'' = Some (JArr (map JStr ps)))"
    and "map_of kv ''suggestion'' = None \<or> map_of kv ''suggestion'' = Some JNull
         \<or> (\<exists>s. map_of kv ''suggestion'' = Some (JStr s))"
  shows "(\<exists>a. bias_attempt loads (Returns response) = Inr a
            \<and> (\<forall>exc_text replies. replies 0 = Returns response
                  \<longrightarrow> analyze_bias True loads exc_text replies = a)
            \<and> bias_score a = n
            \<and> bias_level a = (if n > 70 then HIGH else if n > 40 then MEDIUM else LOW)
            \<and> (n = 40 \<longrightarrow> bias_level a = LOW)
            \<and> (n = 41 \<longrightarrow> bias_level a = MEDIUM)
            \<and> (n = 70 \<longrightarrow> bias_level a = MEDIUM)
            \<and> (n = 71 \<longrightarrow> bias_level a = HIGH))
       \<and> (\<forall>reply b. bias_attempt loads reply = Inr b
             \<longrightarrow> bias_level b
                 = (if bias_score b > 70 then HIGH
                    else if bias_score b > 40 then MEDIUM else LOW))"
proof -
  from bias_attempt_well_formed [OF assms] obtain a where
      a: "bias_attempt loads (Returns response) = Inr a"
    and s: "bias_score a = n"
    and l: "bias_level a = (if n > 70 then HIGH else if n > 40 then MEDIUM else LOW)"
    by blast
  have first: "analyze_bias True loads exc_text replies = a"
    if "replies 0 = Returns response" for exc_text replies
    using that a by (simp add: analyze_bias_first)
  have any: "bias_level b
      = (if bias_score b > 70 then HIGH else if bias_score b > 40 then MEDIUM else LOW)"
    if "bias_attempt loads reply = Inr b" for reply b
    using bias_attempt_success [OF that] by auto
  from a s l first any show ?thesis by auto
qed

theorem bias_level_from_score_witness:
  \<open>map_sum id (\<lambda>a. (bias_score a, bias_level a))
      (bias_attempt json_loads (Returns ''{"bias_score": 40}'')) = Inr (40, LOW)
   \<and> map_sum id (\<lambda>a. (bias_score a, bias_level a))
      (bias_attempt json_loads (Returns ''{"bias_score": 41, "flagged_phrases": ["huge"]}''))
       = Inr (41, MEDIUM)
   \<and> map_sum id (\<lambda>a. (bias_score a, bias_level a))
      (bias_attempt json_loads (Returns ''{"bias_score": 70, "suggestion": null}''))
       = Inr (70, MEDIUM)
   \<and> map_sum id (\<lambda>a. (bias_score a, bias_level a))
      (bias_attempt json_loads (Returns ''{"bias_score": 71, "suggestion": "Rephrase"}''))
       = Inr (71, HIGH)
   \<and> bias_score (analyze_bias True json_loads (\<lambda>e. [])
        (\<lambda>i. Returns ''{"bias_score": 41, "flagged_phrases": ["huge"]}'')) = 41\<close>
proof -
  have p40: \<open>bias_parse_json_response json_loads ''{"bias_score": 40}''
      = Inr (JObj [(''bias_score'', JInt 40)])\<close>
    and p41: \<open>bias_parse_json_response json_loads
               ''{"bias_score": 41, "flagged_phrases": ["huge"]}''
      = Inr (JObj [(''bias_score'', JInt 41),
                   (''flagged_phrases'', JArr (map JStr [''huge'']))])\<close>
    and p70: \<open>bias_parse_json_response json_loads ''{"bias_score": 70, "suggestion": null}''
      = Inr (JObj [(''bias_score'', JInt 70), (''suggestion'', JNull)])\<close>
    and p71: \<open>bias_parse_json_response json_loads
               ''{"bias_score": 71, "suggestion": "Rephrase"}''
      = Inr (JObj [(''bias_score'', JInt 71), (''suggestion'', JStr ''Rephrase'')])\<close>
    by code_simp+
  have r40: \<open>map_sum id (\<lambda>a. (bias_score a, bias_level a))
      (bias_attempt json_loads (Returns ''{"bias_score": 40}'')) = Inr (40, LOW)\<close>
    using bias_level_from_score [OF p40, of 40] by auto
  have r41: \<open>map_sum id (\<lambda>a. (bias_score a, bias_level a))
      (bias_attempt json_loads (Returns ''{"bias_score": 41, "flagged_phrases": ["huge"]}''))
       = Inr (41, MEDIUM)
     \<and> bias_score (analyze_bias True json_loads (\<lambda>e. [])
        (\<lambda>i. Returns ''{"bias_score": 41, "flagged_phrases": ["huge"]}'')) = 41\<close>
  proof -
    have ph: "map_of [(''bias_score'', JInt 41),
                      (''flagged_phrases'', JArr (map JStr [''huge'']))] ''flagged_phrases'' = None
        \<or> (\<exists>ps. map_of [(''bias_score'', JInt 41),
                             (''flagged_phrases'', JArr (map JStr [''huge'']))] ''flagged_phrases''
                 = Some (JArr (map JStr ps)))"
      by (rule disjI2, rule exI [of _ "[''huge'']"]) simp
    from bias_level_from_score [OF p41 _ _ _ ph, of 41] show ?thesis by auto
  qed
  have r70: \<open>map_sum id (\<lambda>a. (bias_score a, bias_level a))
      (bias_attempt json_loads (Returns ''{"bias_score": 70, "suggestion": null}''))
       = Inr (70, MEDIUM)\<close>
    using bias_level_from_score [OF p70, of 70] by auto
  have r71: \<open>map_sum id (\<lambda>a. (bias_score a, bias_level a))
      (bias_attempt json_loads (Returns ''{"bias_score": 71, "suggestion": "Rephrase"}''))
       = Inr (71, HIGH)\<close>
    using bias_level_from_score [OF p71, of 71] by auto
  from r40 r41 r70 r71 show ?thesis by blast
qed

text \<open>
  C9, as the code has it. On the success path the suggestion of the analysis is the
  string the response carries under \<open>suggestion\<close>, and is absent when the response has
  no such key or has \<open>null\<close> there: the level does not enter.
\<close>

theorem bias_suggestion_from_response:
  assumes "bias_attempt loads reply = Inr a"
  shows "\<exists>response kv.
           reply = Returns response
         \<and> bias_parse_json_response loads response = Inr (JObj kv)
         \<and> suggestion a
             = (case map_of kv ''suggestion'' of Some (JStr s) \<Rightarrow> Some s | _ \<Rightarrow> None)"
  using bias_attempt_success [OF assms] by blast

theorem bias_suggestion_from_response_witness:
  \<open>\<exists>response kv.
      Returns ''{"bias_score": 80, "suggestion": "State the facts"}'' = Returns response
    \<and> bias_parse_json_response json_loads response = Inr (JObj kv)
    \<and> suggestion \<lparr> bias_score = 80, bias_level = HIGH, flagged_phrases = [],
                    suggestion = Some ''State the facts'' \<rparr>
        = (case map_of kv ''suggestion'' of Some (JStr s) \<Rightarrow> Some s | _ \<Rightarrow> None)\<close>
proof -
  have a: \<open>bias_attempt json_loads
             (Returns ''{"bias_score": 80, "suggestion": "State the facts"}'')
     = Inr \<lparr> bias_score = 80, bias_level = HIGH, flagged_phrases = [],
             suggestion = Some ''State the facts'' \<rparr>\<close>
    by code_simp
  from bias_suggestion_from_response [OF a] show ?thesis .
qed

text \<open>
  C9, as the claim states it, fails: a response with score 10 and a suggestion gives,
  on the success path, an analysis of level LOW that has the suggestion.
\<close>

theorem bias_low_with_suggestion_counterexample:
  \<open>analyze_bias True json_loads (\<lambda>e. [])
     (\<lambda>i. Returns ''{"bias_score": 10, "suggestion": "Rephrase it"}'')
   = \<lparr> bias_score = 10, bias_level = LOW, flagged_phrases = [],
       suggestion = Some ''Rephrase it'' \<rparr>
   \<and> bias_attempt json_loads (Returns ''{"bias_score": 10, "suggestion": "Rephrase it"}'')
   = Inr \<lparr> bias_score = 10, bias_level = LOW, flagged_phrases = [],
           suggestion = Some ''Rephrase it'' \<rparr>\<close>
  by code_simp

section \<open>Properties of the optimizer\<close>

text \<open>
  C8 at the text \<open>[]\<close>: the direct parse gives an empty list, which the first branch
  refuses (it asks for at least one item); the second branch finds the same brackets,
  parses the same empty list and returns it, without the test on the length. The result
  is the empty list, not the fallback suggestions.
\<close>

theorem parse_suggestions_empty_array:
  \<open>parse_suggestions json_loads ''[]'' = Inr []
   \<and> parse_suggestions json_loads ''[]'' \<noteq> Inr fallback_suggestions\<close>
  by code_simp

section \<open>Properties of the gatekeeper's validation\<close>

lemma strip_Nil [simp]: "strip [] = []"
  by (simp add: strip_def)

lemma first_unclear_step:
  assumes "map_of kv k = None \<or> (\<exists>s. map_of kv k = Some (JStr s))"
  shows "first_unclear (JObj kv) (k # rest)
           = (if is_unclear (field_text kv k) then Inr (Some k)
              else first_unclear (JObj kv) rest)"
  using assms
  by (auto simp: dict_get_def as_str_def is_unclear_def field_text_def Let_def)

lemma clear_field_is_string:
  assumes "map_of kv k = None \<or> (\<exists>s. map_of kv k = Some (JStr s))"
    and "\<not> is_unclear (field_text kv k)"
  shows "map_of kv k = Some (JStr (field_text kv k))"
  using assms by (auto simp: is_unclear_def field_text_def)

lemma normalize_irreversible_spec: "normalize_irreversible raw = spec_irreversible raw"
  by (simp add: normalize_irreversible_def spec_irreversible_def Let_def)

text \<open>
  C5, as the code has it. On a parsed object whose values under the four keys, where
  present, are strings, \<open>_validate_fields\<close> returns what the specification says, read with
  the trimming and the case folding the code applies: the first field, in the order
  goal, cost, risk, irreversible, whose trimmed value is empty or UNCLEAR in any case,
  with its question from the table; and, when there is none, the complete decision with
  the irreversibility normalized (after lower-casing and trimming) and never an error.
\<close>

theorem validate_fields_refines_spec:
  assumes "\<forall>k \<in> set required_fields. \<forall>v. map_of kv k = Some v \<longrightarrow> (\<exists>s. v = JStr s)"
  shows "validate_fields (JObj kv) = Inr (spec_validate_fields kv)"
proof -
  have ty: "map_of kv k = None \<or> (\<exists>s. map_of kv k = Some (JStr s))"
    if "k \<in> set required_fields" for k
    using assms that by (cases "map_of kv k") auto
  have g: "map_of kv ''goal'' = None \<or> (\<exists>s. map_of kv ''goal'' = Some (JStr s))"
    and c: "map_of kv ''cost'' = None \<or> (\<exists>s. map_of kv ''cost'' = Some (JStr s))"
    and r: "map_of kv ''risk'' = None \<or> (\<exists>s. map_of kv ''risk'' = Some (JStr s))"
    and i: "map_of kv ''irreversible'' = None
            \<or> (\<exists>s. map_of kv ''irreversible'' = Some (JStr s))"
    by (rule ty, simp add: required_fields_def)+
  have loop: "first_unclear (JObj kv) required_fields
      = Inr (if is_unclear (field_text kv ''goal'') then Some ''goal''
             else if is_unclear (field_text kv ''cost'') then Some ''cost''
             else if is_unclear (field_text kv ''risk'') then Some ''risk''
             else if is_unclear (field_text kv ''irreversible'') then Some ''irreversible''
             else None)"
    unfolding required_fields_def
    by (simp del: first_unclear.simps(2)
        add: first_unclear_step [OF g] first_unclear_step [OF c]
          first_unclear_step [OF r] first_unclear_step [OF i])
  show ?thesis
  proof (cases "is_unclear (field_text kv ''goal'') \<or> is_unclear (field_text kv ''cost'')
                \<or> is_unclear (field_text kv ''risk'')
                \<or> is_unclear (field_text kv ''irreversible'')")
    case True
    then show ?thesis
      by (auto simp: validate_fields_def loop spec_validate_fields_def
          MISSING_FIELD_QUESTIONS_def)
  next
    case False
    then have all_clear: "\<not> is_unclear (field_text kv ''goal'')"
      "\<not> is_unclear (field_text kv ''cost'')" "\<not> is_unclear (field_text kv ''risk'')"
      "\<not> is_unclear (field_text kv ''irreversible'')"
      by auto
    note vals = clear_field_is_string [OF g all_clear(1)]
      clear_field_is_string [OF c all_clear(2)] clear_field_is_string [OF r all_clear(3)]
      clear_field_is_string [OF i all_clear(4)]
    show ?thesis
      by (simp add: validate_fields_def loop spec_validate_fields_def all_clear vals
          dict_item_def as_str_def str_field_def normalize_irreversible_spec)
  qed
qed

theorem validate_fields_refines_spec_witness:
  \<open>validate_fields
     (JObj [(''goal'', JStr ''start a bakery''), (''cost'', JStr ''UNCLEAR''),
            (''irreversible'', JStr ''yes'')])
   = Inr (spec_validate_fields
       [(''goal'', JStr ''start a bakery''), (''cost'', JStr ''UNCLEAR''),
        (''irreversible'', JStr ''yes'')])
   \<and> spec_validate_fields
       [(''goal'', JStr ''start a bakery''), (''cost'', JStr ''UNCLEAR''),
        (''irreversible'', JStr ''yes'')]
     = IncompleteDecision ''cost''
         ''What will you sacrifice or invest? (money, time, effort, etc.)''\<close>
proof -
  have h: "\<forall>k \<in> set required_fields. \<forall>v.
      map_of [(''goal'', JStr ''start a bakery''), (''cost'', JStr ''UNCLEAR''),
              (''irreversible'', JStr ''yes'')] k = Some v \<longrightarrow> (\<exists>s. v = JStr s)"
    by (simp add: required_fields_def)
  have v: \<open>spec_validate_fields
       [(''goal'', JStr ''start a bakery''), (''cost'', JStr ''UNCLEAR''),
        (''irreversible'', JStr ''yes'')]
     = IncompleteDecision ''cost''
         ''What will you sacrifice or invest? (money, time, effort, etc.)''\<close>
    by code_simp
  from validate_fields_refines_spec [OF h] v show ?thesis by simp
qed

text \<open>
  C5, as the claim states it, fails. A goal of one blank is neither empty nor UNCLEAR,
  yet it is reported as the missing field; the irreversibility \<open>YES\<close> in capitals is not
  one of yes, true and 1, yet it is normalized to YES rather than PARTIAL; and a goal
  that is JSON \<open>null\<close> gives an exception, neither an incomplete nor a complete decision.
\<close>

theorem validate_fields_counterexample:
  \<open>validate_fields
     (JObj [(''goal'', JStr '' ''), (''cost'', JStr ''all my savings''),
            (''risk'', JStr ''business failure''), (''irreversible'', JStr ''yes'')])
   = Inr (IncompleteDecision ''goal'' ''What specific outcome are you trying to achieve?'')
   \<and> '' '' \<noteq> [] \<and> upper '' '' \<noteq> ''UNCLEAR''
   \<and> validate_fields
     (JObj [(''goal'', JStr ''start a bakery''), (''cost'', JStr ''all my savings''),
            (''risk'', JStr ''business failure''), (''irreversible'', JStr ''YES'')])
   = Inr (CompleteDecision
       \<lparr> goal = ''start a bakery'', cost = ''all my savings'', risk = ''business failure'',
         irreversible = YES \<rparr>)
   \<and> ''YES'' \<notin> set [''yes'', ''true'', ''1'']
   \<and> validate_fields
     (JObj [(''goal'', JNull), (''cost'', JStr ''all my savings''),
            (''risk'', JStr ''business failure''), (''irreversible'', JStr ''yes'')])
   = Inl AttributeError\<close>
  by code_simp

section \<open>Properties of the rate limiter\<close>

lemma and_then_Inr [simp]: "and_then (Inr x) f = f x"
  by (simp add: and_then_def)

lemma py_min_Cons: "xs \<noteq> [] \<Longrightarrow> py_min xs = Inr (Min (set xs))"
proof (cases xs)
  case Nil
  assume "xs \<noteq> []"
  with Nil show ?thesis by simp
next
  case (Cons a rest)
  have "fold min rest a = Min (set (a # rest))"
    by (rule Min.set_eq_fold [symmetric])
  with Cons show ?thesis by (simp add: py_min_def)
qed

lemma check_allowed:
  assumes "int (length (filter (\<lambda>ts. fl (now - of_int (window_seconds rl)) < ts) (requests rl i)))
           < max_requests rl"
  shows "check fl rl i now
         = Inr (rl \<lparr> requests := (requests rl)
                  (i := filter (\<lambda>ts. fl (now - of_int (window_seconds rl)) < ts) (requests rl i)
                        @ [now]) \<rparr>, True, 0)"
  using assms by (simp add: check_def Let_def)

lemma check_denied:
  fixes rl :: RateLimiter and i :: string and now :: rat and fl :: "rat \<Rightarrow> rat"
  defines "kept \<equiv> filter (\<lambda>ts. fl (now - of_int (window_seconds rl)) < ts) (requests rl i)"
  defines "d \<equiv> fl (fl (Min (set kept) + of_int (window_seconds rl)) - now)"
  assumes full: "\<not> int (length kept) < max_requests rl" and pos: "1 \<le> max_requests rl"
  shows "check fl rl i now
           = Inr (rl \<lparr> requests := (requests rl)(i := kept) \<rparr>, False, max 1 (py_int d + 1))"
proof -
  from full pos have ne: "kept \<noteq> []" by auto
  show ?thesis
    using full py_min_Cons [OF ne]
    by (simp add: check_def Let_def kept_def [symmetric] d_def [symmetric])
qed

lemma retry_after_positive:
  assumes "0 < d"
  shows "max 1 (py_int d + 1) = \<lfloor>d\<rfloor> + 1"
    and "\<lfloor>d\<rfloor> + 1 = (if of_int \<lfloor>d\<rfloor> = d then \<lceil>d\<rceil> + 1 else \<lceil>d\<rceil>)"
proof -
  from assms have "0 \<le> \<lfloor>d\<rfloor>" by simp
  with assms show "max 1 (py_int d + 1) = \<lfloor>d\<rfloor> + 1"
    by (simp add: py_int_def)
  show "\<lfloor>d\<rfloor> + 1 = (if of_int \<lfloor>d\<rfloor> = d then \<lceil>d\<rceil> + 1 else \<lceil>d\<rceil>)"
    by (auto simp: ceiling_altdef)
qed

text \<open>
  The rounding of doubles, as far as the scenario needs it: the result of an operation
  differs from the exact one by at most its \<open>2^53\<close>-th part, or by at most \<open>2^-1075\<close>
  where the exact result is too small for a normal double (rounding to nearest, no
  overflow). On numbers up to \<open>2^51\<close> that is at most a quarter.
\<close>

lemma rounding_quarter:
  fixes fl :: "rat \<Rightarrow> rat"
  assumes r: "\<forall>x. \<bar>x\<bar> \<le> 2 ^ 1023 \<longrightarrow> \<bar>fl x - x\<bar> \<le> max (\<bar>x\<bar> / 2 ^ 53) (1 / 2 ^ 1075)"
    and b: "\<bar>x\<bar> \<le> 2 ^ 51"
  shows "x - 1 / 4 \<le> fl x" and "fl x \<le> x + 1 / 4"
proof -
  have "(2::rat) ^ 51 \<le> 2 ^ 1023"
    by (rule power_increasing) simp_all
  with b have "\<bar>x\<bar> \<le> 2 ^ 1023" by simp
  with r have e: "\<bar>fl x - x\<bar> \<le> max (\<bar>x\<bar> / 2 ^ 53) (1 / 2 ^ 1075)" by blast
  have "\<bar>x\<bar> / 2 ^ 53 \<le> 2 ^ 51 / 2 ^ 53"
    using b by (simp add: divide_right_mono)
  also have "(2::rat) ^ 51 / 2 ^ 53 = 1 / 4" by simp
  finally have "\<bar>x\<bar> / 2 ^ 53 \<le> 1 / 4" .
  moreover have "(1::rat) / 2 ^ 1075 \<le> 1 / 4"
    by simp
  ultimately have "max (\<bar>x\<bar> / 2 ^ 53) (1 / 2 ^ 1075) \<le> 1 / 4"
    by simp
  with e have q: "\<bar>fl x - x\<bar> \<le> 1 / 4" by simp
  from q show "x - 1 / 4 \<le> fl x" by linarith
  from q show "fl x \<le> x + 1 / 4" by linarith
qed

lemma four_checks:
  fixes rl :: RateLimiter and t1 t2 t3 t4 :: rat and fl :: "rat \<Rightarrow> rat"
  assumes r: "\<forall>x. \<bar>x\<bar> \<le> 2 ^ 1023 \<longrightarrow> \<bar>fl x - x\<bar> \<le> max (\<bar>x\<bar> / 2 ^ 53) (1 / 2 ^ 1075)"
    and m: "\<bar>t1\<bar> \<le> 2 ^ 50"
    and n: "max_requests rl = 3" and w: "window_seconds rl = 60"
    and e: "requests rl i = []"
    and o: "t1 \<le> t2" "t2 \<le> t3" "t3 \<le> t4" "t4 \<le> t1 + 1"
  shows "\<exists>rl'. checks fl rl i [t1, t2, t3, t4]
           = Inr (rl', [(True, 0), (True, 0), (True, 0),
                        (False, \<lfloor>fl (fl (t1 + 60) - t4)\<rfloor> + 1)])"
    and "59 \<le> \<lfloor>fl (fl (t1 + 60) - t4)\<rfloor> + 1" and "\<lfloor>fl (fl (t1 + 60) - t4)\<rfloor> + 1 \<le> 61"
proof -
  have big: "(2::rat) ^ 51 = 2 ^ 50 + 2 ^ 50" by simp
  have far: "61 \<le> (2::rat) ^ 50" by simp
  have start: "fl (t - 60) < t1" if "t1 \<le> t" "t \<le> t4" for t
  proof -
    have "\<bar>t - 60\<bar> \<le> 2 ^ 51"
      using that o m far unfolding big by linarith
    from rounding_quarter(2) [OF r this] have "fl (t - 60) \<le> t - 60 + 1 / 4" .
    with that o show ?thesis by simp
  qed
  define rl1 where "rl1 = rl \<lparr> requests := (requests rl)(i := [t1]) \<rparr>"
  define rl2 where "rl2 = rl \<lparr> requests := (requests rl)(i := [t1, t2]) \<rparr>"
  define rl3 where "rl3 = rl \<lparr> requests := (requests rl)(i := [t1, t2, t3]) \<rparr>"
  have s2: "fl (t2 - 60) < t1" and s3: "fl (t3 - 60) < t1" and s4: "fl (t4 - 60) < t1"
    using o by (auto intro: start)
  have c1: "check fl rl i t1 = Inr (rl1, True, 0)"
    using check_allowed [of fl t1 rl i] n w e by (simp add: rl1_def)
  have c2: "check fl rl1 i t2 = Inr (rl2, True, 0)"
    using check_allowed [of fl t2 rl1 i] n w s2 by (simp add: rl1_def rl2_def)
  have c3: "check fl rl2 i t3 = Inr (rl3, True, 0)"
    using check_allowed [of fl t3 rl2 i] n w s3 o by (simp add: rl2_def rl3_def)
  have k: "filter (\<lambda>ts. fl (t4 - of_int (window_seconds rl3)) < ts) (requests rl3 i)
             = [t1, t2, t3]"
    using w s4 o by (simp add: rl3_def)
  have mn: "Min (set [t1, t2, t3]) = t1" using o by (simp add: min_def)
  let ?d = "fl (fl (t1 + 60) - t4)"
  have sum: "t1 + 60 - 1 / 4 \<le> fl (t1 + 60)" "fl (t1 + 60) \<le> t1 + 60 + 1 / 4"
  proof -
    have "\<bar>t1 + 60\<bar> \<le> 2 ^ 51"
      using m far unfolding big by linarith
    from rounding_quarter [OF r this]
    show "t1 + 60 - 1 / 4 \<le> fl (t1 + 60)" "fl (t1 + 60) \<le> t1 + 60 + 1 / 4" by simp_all
  qed
  have diff: "58 + 3 / 4 \<le> fl (t1 + 60) - t4" "fl (t1 + 60) - t4 \<le> 60 + 1 / 4"
    using sum o by simp_all
  have d: "58 + 1 / 2 \<le> ?d" "?d \<le> 60 + 1 / 2"
  proof -
    have "\<bar>fl (t1 + 60) - t4\<bar> \<le> 2 ^ 51"
      using diff far unfolding big by linarith
    from rounding_quarter [OF r this] diff
    show "58 + 1 / 2 \<le> ?d" "?d \<le> 60 + 1 / 2" by simp_all
  qed
  from d(1) have lo: "58 \<le> \<lfloor>?d\<rfloor>" by (simp add: le_floor_iff)
  from d(2) have hi: "\<lfloor>?d\<rfloor> \<le> 60" by (simp add: floor_le_iff)
  from lo show "59 \<le> \<lfloor>?d\<rfloor> + 1" by simp
  from hi show "\<lfloor>?d\<rfloor> + 1 \<le> 61" by simp
  have dpos: "0 < ?d" using d(1) by simp
  have c4: "check fl rl3 i t4 = Inr (rl3, False, \<lfloor>?d\<rfloor> + 1)"
    using check_denied [of fl t4 rl3 i] n w retry_after_positive(1) [OF dpos]
    unfolding k mn by (simp add: rl3_def)
  show "\<exists>rl'. checks fl rl i [t1, t2, t3, t4]
           = Inr (rl', [(True, 0), (True, 0), (True, 0), (False, \<lfloor>?d\<rfloor> + 1)])"
    by (simp add: c1 c2 c3 c4)
qed

text \<open>
  C3, as the code has it. A check that finds fewer than \<open>max_requests\<close> timestamps in the
  trailing window records the clock reading and allows, with retry time 0. Otherwise
  (the capacity being at least 1) it denies, keeps the purged list, and the retry time
  is the larger of 1 and the integer part of \<open>d\<close> plus 1, where \<open>d\<close> is
  \<open>oldest + window - now\<close> as the doubles give it: for a positive \<open>d\<close> the floor of \<open>d\<close>
  plus 1, which is the ceiling when \<open>d\<close> is not a whole number and one more than the
  ceiling when it is. With capacity 3 and window 60, four checks of a fresh identifier
  at readings in time order within one second (doubles rounded to nearest, readings up
  to \<open>2^50\<close>): the first three are allowed and the fourth is denied with a retry time
  from 59 to 61.
\<close>

theorem check_sliding_window:
  fixes rl :: RateLimiter and i :: string and now t1 t2 t3 t4 :: rat and fl :: "rat \<Rightarrow> rat"
  shows
    "(int (length (filter (\<lambda>ts. fl (now - of_int (window_seconds rl)) < ts) (requests rl i)))
        < max_requests rl
      \<longrightarrow> check fl rl i now
          = Inr (rl \<lparr> requests := (requests rl)
                   (i := filter (\<lambda>ts. fl (now - of_int (window_seconds rl)) < ts)
                           (requests rl i)
                         @ [now]) \<rparr>, True, 0))
   \<and> (\<not> int (length (filter (\<lambda>ts. fl (now - of_int (window_seconds rl)) < ts)
                          (requests rl i)))
          < max_requests rl
      \<and> 1 \<le> max_requests rl
      \<longrightarrow> (let kept = filter (\<lambda>ts. fl (now - of_int (window_seconds rl)) < ts)
                          (requests rl i);
               d = fl (fl (Min (set kept) + of_int (window_seconds rl)) - now)
           in check fl rl i now
                = Inr (rl \<lparr> requests := (requests rl)(i := kept) \<rparr>, False,
                       max 1 (py_int d + 1))
              \<and> 1 \<le> max 1 (py_int d + 1)
              \<and> (0 < d \<longrightarrow> max 1 (py_int d + 1) = \<lfloor>d\<rfloor> + 1
                    \<and> \<lfloor>d\<rfloor> + 1 = (if of_int \<lfloor>d\<rfloor> = d then \<lceil>d\<rceil> + 1 else \<lceil>d\<rceil>))))
   \<and> ((\<forall>x. \<bar>x\<bar> \<le> 2 ^ 1023
              \<longrightarrow> \<bar>fl x - x\<bar> \<le> max (\<bar>x\<bar> / 2 ^ 53) (1 / 2 ^ 1075))
      \<and> \<bar>t1\<bar> \<le> 2 ^ 50
      \<and> max_requests rl = 3 \<and> window_seconds rl = 60 \<and> requests rl i = []
      \<and> t1 \<le> t2 \<and> t2 \<le> t3 \<and> t3 \<le> t4 \<and> t4 \<le> t1 + 1
      \<longrightarrow> (\<exists>rl' r. checks fl rl i [t1, t2, t3, t4]
                     = Inr (rl', [(True, 0), (True, 0), (True, 0), (False, r)])
                 \<and> 1 \<le> r \<and> 59 \<le> r \<and> r \<le> 61))"
proof (intro conjI impI)
  assume "int (length (filter (\<lambda>ts. fl (now - of_int (window_seconds rl)) < ts) (requests rl i)))
            < max_requests rl"
  then show "check fl rl i now
          = Inr (rl \<lparr> requests := (requests rl)
                   (i := filter (\<lambda>ts. fl (now - of_int (window_seconds rl)) < ts)
                           (requests rl i)
                         @ [now]) \<rparr>, True, 0)"
    by (rule check_allowed)
next
  assume a: "\<not> int (length (filter (\<lambda>ts. fl (now - of_int (window_seconds rl)) < ts)
                          (requests rl i)))
          < max_requests rl
      \<and> 1 \<le> max_requests rl"
  show "let kept = filter (\<lambda>ts. fl (now - of_int (window_seconds rl)) < ts)
                          (requests rl i);
               d = fl (fl (Min (set kept) + of_int (window_seconds rl)) - now)
           in check fl rl i now
                = Inr (rl \<lparr> requests := (requests rl)(i := kept) \<rparr>, False,
                       max 1 (py_int d + 1))
              \<and> 1 \<le> max 1 (py_int d + 1)
              \<and> (0 < d \<longrightarrow> max 1 (py_int d + 1) = \<lfloor>d\<rfloor> + 1
                    \<and> \<lfloor>d\<rfloor> + 1 = (if of_int \<lfloor>d\<rfloor> = d then \<lceil>d\<rceil> + 1 else \<lceil>d\<rceil>))"
    unfolding Let_def
    using check_denied [of fl now rl i] a retry_after_positive by simp
next
  assume a: "(\<forall>x. \<bar>x\<bar> \<le> 2 ^ 1023
              \<longrightarrow> \<bar>fl x - x\<bar> \<le> max (\<bar>x\<bar> / 2 ^ 53) (1 / 2 ^ 1075))
      \<and> \<bar>t1\<bar> \<le> 2 ^ 50
      \<and> max_requests rl = 3 \<and> window_seconds rl = 60 \<and> requests rl i = []
      \<and> t1 \<le> t2 \<and> t2 \<le> t3 \<and> t3 \<le> t4 \<and> t4 \<le> t1 + 1"
  then have r: "\<forall>x. \<bar>x\<bar> \<le> 2 ^ 1023 \<longrightarrow> \<bar>fl x - x\<bar> \<le> max (\<bar>x\<bar> / 2 ^ 53) (1 / 2 ^ 1075)"
    and m: "\<bar>t1\<bar> \<le> 2 ^ 50"
    and n: "max_requests rl = 3" and w: "window_seconds rl = 60"
    and e: "requests rl i = []" and o: "t1 \<le> t2" "t2 \<le> t3" "t3 \<le> t4" "t4 \<le> t1 + 1"
    by blast+
  from four_checks [OF r m n w e o]
  obtain rl' where
      "checks fl rl i [t1, t2, t3, t4]
         = Inr (rl', [(True, 0), (True, 0), (True, 0),
                      (False, \<lfloor>fl (fl (t1 + 60) - t4)\<rfloor> + 1)])"
    and "59 \<le> \<lfloor>fl (fl (t1 + 60) - t4)\<rfloor> + 1" and "\<lfloor>fl (fl (t1 + 60) - t4)\<rfloor> + 1 \<le> 61"
    by blast
  then show "\<exists>rl' r. checks fl rl i [t1, t2, t3, t4]
                     = Inr (rl', [(True, 0), (True, 0), (True, 0), (False, r)])
                 \<and> 1 \<le> r \<and> 59 \<le> r \<and> r \<le> 61"
    by (intro exI [of _ rl'] exI [of _ "\<lfloor>fl (fl (t1 + 60) - t4)\<rfloor> + 1"]) simp
qed

theorem check_sliding_window_witness:
  "map_sum id snd
     (check exact \<lparr> max_requests = 3, window_seconds = 60, requests = (\<lambda>k. []) \<rparr>
        ''10.0.0.1'' 100)
   = Inr (True, 0)
   \<and> map_sum id snd
       (check exact
          \<lparr> max_requests = 3, window_seconds = 60,
            requests = (\<lambda>k. [100, 100 + 1 / 4, 100 + 1 / 2]) \<rparr>
          ''10.0.0.1'' (100 + 3 / 4))
     = Inr (False, 60)
   \<and> (\<exists>rl' r. checks exact \<lparr> max_requests = 3, window_seconds = 60, requests = (\<lambda>k. []) \<rparr>
               ''10.0.0.1'' [100, 100 + 1 / 4, 100 + 1 / 2, 100 + 3 / 4]
             = Inr (rl', [(True, 0), (True, 0), (True, 0), (False, r)])
           \<and> 1 \<le> r \<and> 59 \<le> r \<and> r \<le> 61)"
proof -
  let ?fresh = "\<lparr> max_requests = 3, window_seconds = 60, requests = (\<lambda>k. []) \<rparr>"
  let ?full = "\<lparr> max_requests = 3, window_seconds = 60,
                 requests = (\<lambda>k. [100, 100 + 1 / 4, 100 + 1 / 2 :: rat]) \<rparr>"
  have a: "int (length (filter (\<lambda>ts. exact (100 - of_int (window_seconds ?fresh)) < ts)
                          (requests ?fresh ''10.0.0.1'')))
             < max_requests ?fresh"
    by simp
  from check_sliding_window [where fl = exact and rl = ?fresh and i = "''10.0.0.1''"
      and now = 100] a
  have "check exact ?fresh ''10.0.0.1'' 100
          = Inr (?fresh \<lparr> requests := (requests ?fresh)
                   (''10.0.0.1'' := filter (\<lambda>ts. exact (100 - of_int (window_seconds ?fresh)) < ts)
                           (requests ?fresh ''10.0.0.1'')
                         @ [100]) \<rparr>, True, 0)"
    by blast
  then have 1: "map_sum id snd (check exact ?fresh ''10.0.0.1'' 100) = Inr (True, 0)"
    by simp
  have k: "filter (\<lambda>ts. exact (100 + 3 / 4 - of_int (window_seconds ?full)) < ts)
             (requests ?full ''10.0.0.1'')
           = [100, 100 + 1 / 4, 100 + 1 / 2]"
    by (simp add: exact_def)
  have b: "\<not> int (length (filter (\<lambda>ts. exact (100 + 3 / 4 - of_int (window_seconds ?full)) < ts)
                            (requests ?full ''10.0.0.1'')))
             < max_requests ?full
           \<and> 1 \<le> max_requests ?full"
    unfolding k by simp
  have d: "max 1 (py_int (exact (exact (Min (set [100, 100 + 1 / 4, 100 + 1 / 2])
                                        + of_int (window_seconds ?full))
                                 - (100 + 3 / 4))) + 1) = 60"
    by code_simp
  from check_sliding_window [where fl = exact and rl = ?full and i = "''10.0.0.1''"
      and now = "100 + 3 / 4"] b
  have "let kept = filter (\<lambda>ts. exact (100 + 3 / 4 - of_int (window_seconds ?full)) < ts)
                          (requests ?full ''10.0.0.1'');
            d = exact (exact (Min (set kept) + of_int (window_seconds ?full)) - (100 + 3 / 4))
        in check exact ?full ''10.0.0.1'' (100 + 3 / 4)
             = Inr (?full \<lparr> requests := (requests ?full)(''10.0.0.1'' := kept) \<rparr>, False,
                    max 1 (py_int d + 1))
           \<and> 1 \<le> max 1 (py_int d + 1)
           \<and> (0 < d \<longrightarrow> max 1 (py_int d + 1) = \<lfloor>d\<rfloor> + 1
                 \<and> \<lfloor>d\<rfloor> + 1 = (if of_int \<lfloor>d\<rfloor> = d then \<lceil>d\<rceil> + 1 else \<lceil>d\<rceil>))"
    by blast
  then have "check exact ?full ''10.0.0.1'' (100 + 3 / 4)
             = Inr (?full \<lparr> requests := (requests ?full)
                       (''10.0.0.1'' := [100, 100 + 1 / 4, 100 + 1 / 2]) \<rparr>, False, 60)"
    unfolding Let_def k d by blast
  then have 2: "map_sum id snd (check exact ?full ''10.0.0.1'' (100 + 3 / 4)) = Inr (False, 60)"
    by simp
  have hr: "\<forall>x. \<bar>x\<bar> \<le> 2 ^ 1023
                \<longrightarrow> \<bar>exact x - x\<bar> \<le> max (\<bar>x\<bar> / 2 ^ 53) (1 / 2 ^ 1075)"
    by (simp add: exact_def le_max_iff_disj)
  have h: "(\<forall>x. \<bar>x\<bar> \<le> 2 ^ 1023
                \<longrightarrow> \<bar>exact x - x\<bar> \<le> max (\<bar>x\<bar> / 2 ^ 53) (1 / 2 ^ 1075))
      \<and> \<bar>100 :: rat\<bar> \<le> 2 ^ 50
      \<and> max_requests ?fresh = 3 \<and> window_seconds ?fresh = 60
      \<and> requests ?fresh ''10.0.0.1'' = []
      \<and> (100 :: rat) \<le> 100 + 1 / 4 \<and> (100 + 1 / 4 :: rat) \<le> 100 + 1 / 2
      \<and> (100 + 1 / 2 :: rat) \<le> 100 + 3 / 4 \<and> (100 + 3 / 4 :: rat) \<le> 100 + 1"
    using hr by simp
  from check_sliding_window
    [where fl = exact and rl = ?fresh and i = "''10.0.0.1''" and ?t1.0 = 100
       and ?t2.0 = "100 + 1 / 4" and ?t3.0 = "100 + 1 / 2" and ?t4.0 = "100 + 3 / 4"] h
  have 3: "\<exists>rl' r. checks exact ?fresh ''10.0.0.1'' [100, 100 + 1 / 4, 100 + 1 / 2, 100 + 3 / 4]
             = Inr (rl', [(True, 0), (True, 0), (True, 0), (False, r)])
           \<and> 1 \<le> r \<and> 59 \<le> r \<and> r \<le> 61"
    by blast
  from 1 2 3 show ?thesis by blast
qed

text \<open>
  C3, as the claim states it, fails. With capacity 3 and window 60, four checks at the
  same clock reading: the fourth is denied with retry time 61, above 60, where the
  ceiling of \<open>oldest + window - now\<close> is 60. And after checks at 100, 101 and 102 a check
  at 130 is denied with retry time 31, where the ceiling is 30. (The sums and
  differences of these readings are whole numbers, which the doubles give exactly.)
\<close>

theorem check_retry_after_counterexample:
  "map_sum id snd
     (checks exact \<lparr> max_requests = 3, window_seconds = 60, requests = (\<lambda>k. []) \<rparr>
        ''10.0.0.1'' [100, 100, 100, 100])
   = Inr [(True, 0), (True, 0), (True, 0), (False, 61)]
   \<and> \<lceil>(100::rat) + 60 - 100\<rceil> = 60
   \<and> map_sum id snd
     (checks exact \<lparr> max_requests = 3, window_seconds = 60, requests = (\<lambda>k. []) \<rparr>
        ''10.0.0.1'' [100, 101, 102, 130])
   = Inr [(True, 0), (True, 0), (True, 0), (False, 31)]
   \<and> \<lceil>(100::rat) + 60 - 130\<rceil> = 30"
  by code_simp

section \<open>Properties of the response parser\<close>


















section \<open>Properties of the sensor council's failure paths\<close>

lemma build_output_parse_failure: "build_output str_of parse_failure = Inr parse_failure_output"
  by (simp add: build_output_def parse_failure_def parse_failure_output_def and_then_def
      dict_get_def sensor_sentence_def sensor_signal_def parse_enum_def)

lemma parse_error_detected_parse_failure: "parse_error_detected parse_failure = Inr True"
  by (simp add: parse_error_detected_def parse_failure_def and_then_def dict_get_def
      as_str_def startswith_def)

lemma flagged_output_unparsable:
  "parse_json loads literal_eval response = Inr parse_failure
   \<Longrightarrow> flagged_output loads literal_eval str_of (Text response) = Some parse_failure_output"
  by (simp add: flagged_output_def parse_error_detected_parse_failure
      build_output_parse_failure)

lemma fallback_not_parse_failure_output: "get_fallback_output error_msg \<noteq> parse_failure_output"
proof
  assume "get_fallback_output error_msg = parse_failure_output"
  then have "sentence (green (get_fallback_output error_msg))
               = sentence (green parse_failure_output)"
    and "sentence (red (get_fallback_output error_msg)) = sentence (red parse_failure_output)"
    by simp_all
  then show False
    by (simp add: get_fallback_output_def parse_failure_output_def)
qed

lemma fallback_blocked:
  "verdict (decide (extract_signals (get_fallback_output error_msg))) = BLOCKED"
  by (simp add: decide_verdict extract_signals_def get_fallback_output_def)

lemma parse_failure_output_blocked:
  "verdict (decide (extract_signals parse_failure_output)) = BLOCKED"
  by (simp add: decide_verdict extract_signals_def parse_failure_output_def)

text \<open>What the iteration of the loop does with a failed attempt.\<close>

lemma sensor_attempt_fails:
  assumes "attempt_fails loads literal_eval str_of reply"
  shows "sensor_attempt loads literal_eval str_of max_retries a reply
         = (case reply of
              CallFails \<Rightarrow> None
            | Blocked reason \<Rightarrow> Some (get_fallback_output (''Blocked: '' @ reason))
            | NoText msg \<Rightarrow>
                if int a < max_retries then None
                else Some (get_fallback_output (''No text in response (Safety?): '' @ msg))
            | Text response \<Rightarrow>
                if int a < max_retries then None
                else flagged_output loads literal_eval str_of reply)"
  using assms
  by (auto simp: sensor_attempt_def attempt_fails_def flagged_output_def
      split: SensorReply.splits sum.splits)

text \<open>
  The loop from attempt \<open>a\<close> with \<open>k\<close> iterations left, the last of them being attempt
  \<open>max_retries\<close>, when each of these attempts fails: the result is the output built from
  the last reply when no reply carries a block reason and the last one is flagged as a
  parse error from which the output can be built, and a fallback output otherwise.
\<close>

lemma sensor_attempts_all_fail:
  assumes idx: "int a + int k = max_retries + 1"
    and fails: "\<forall>i. a \<le> i \<and> i < a + k
                  \<longrightarrow> attempt_fails loads literal_eval str_of (replies i)"
  shows "case (if 0 < k \<and> (\<forall>i reason. a \<le> i \<and> i < a + k \<longrightarrow> replies i \<noteq> Blocked reason)
               then flagged_output loads literal_eval str_of (replies (a + k - 1))
               else None) of
           Some built \<Rightarrow>
             sensor_attempts loads literal_eval str_of max_retries replies k a = built
         | None \<Rightarrow>
             (\<exists>msg. sensor_attempts loads literal_eval str_of max_retries replies k a
                      = get_fallback_output msg)"
  using assms
proof (induction k arbitrary: a)
  case 0
  then show ?case by auto
next
  case (Suc k)
  let ?out = "sensor_attempts loads literal_eval str_of max_retries replies (Suc k) a"
  let ?rest = "sensor_attempts loads literal_eval str_of max_retries replies k (Suc a)"
  let ?here = "sensor_attempt loads literal_eval str_of max_retries a (replies a)"
  have lt: "(int a < max_retries) = (0 < k)"
    using Suc.prems(1) by auto
  have idx': "int (Suc a) + int k = max_retries + 1"
    using Suc.prems(1) by simp
  have later: "\<forall>i. Suc a \<le> i \<and> i < Suc a + k
                 \<longrightarrow> attempt_fails loads literal_eval str_of (replies i)"
    using Suc.prems(2) by auto
  note IH = Suc.IH [OF idx' later]
  have here: "attempt_fails loads literal_eval str_of (replies a)"
    using Suc.prems(2) by auto
  note step = sensor_attempt_fails [OF here, of max_retries a]
  have range: "(\<forall>i reason. a \<le> i \<and> i < a + Suc k \<longrightarrow> replies i \<noteq> Blocked reason)
      = ((\<forall>reason. replies a \<noteq> Blocked reason)
         \<and> (\<forall>i reason. Suc a \<le> i \<and> i < Suc a + k \<longrightarrow> replies i \<noteq> Blocked reason))"
    (is "?L = ?R")
  proof
    assume ?L
    then show ?R by auto
  next
    assume r: ?R
    show ?L
    proof (intro allI impI)
      fix i reason
      assume "a \<le> i \<and> i < a + Suc k"
      then have "i = a \<or> (Suc a \<le> i \<and> i < Suc a + k)" by auto
      with r show "replies i \<noteq> Blocked reason" by auto
    qed
  qed
  show ?case
  proof (cases "\<exists>reason. replies a = Blocked reason")
    case True
    then obtain reason where b: "replies a = Blocked reason" by blast
    then have "?out = get_fallback_output (''Blocked: '' @ reason)"
      using step by simp
    moreover have "\<not> (\<forall>i reason. a \<le> i \<and> i < a + Suc k \<longrightarrow> replies i \<noteq> Blocked reason)"
      unfolding range using b by simp
    ultimately show ?thesis by auto
  next
    case nb: False
    show ?thesis
    proof (cases "0 < k")
      case True
      then have "?here = None"
        using step lt nb by (cases "replies a") simp_all
      then have out: "?out = ?rest" by simp
      have last: "a + Suc k - 1 = Suc a + k - 1"
        using True by simp
      have cond: "(0 < Suc k
                   \<and> (\<forall>i reason. a \<le> i \<and> i < a + Suc k \<longrightarrow> replies i \<noteq> Blocked reason))
                = (0 < k
                   \<and> (\<forall>i reason. Suc a \<le> i \<and> i < Suc a + k \<longrightarrow> replies i \<noteq> Blocked reason))"
        unfolding range using nb True by simp
      show ?thesis
        unfolding out cond last using IH by simp
    next
      case False
      then have k: "k = 0" by simp
      have cond: "0 < Suc k
                \<and> (\<forall>i reason. a \<le> i \<and> i < a + Suc k \<longrightarrow> replies i \<noteq> Blocked reason)"
        unfolding range using nb k by auto
      have last: "a + Suc k - 1 = a"
        using k by simp
      have out: "?out = (case ?here of
                           Some out \<Rightarrow> out
                         | None \<Rightarrow> get_fallback_output
                             ''Analysis failed after multiple attempts. Please try again.'')"
        using k by (simp split: option.splits)
      show ?thesis
      proof (cases "replies a")
        case CallFails
        then have "?here = None" and "flagged_output loads literal_eval str_of (replies a) = None"
          using step by (simp_all add: flagged_output_def)
        then show ?thesis
          using cond unfolding out last by auto
      next
        case (Blocked reason)
        with nb show ?thesis by simp
      next
        case (NoText msg)
        then have "?here = Some (get_fallback_output (''No text in response (Safety?): '' @ msg))"
          and "flagged_output loads literal_eval str_of (replies a) = None"
          using step lt k by (simp_all add: flagged_output_def)
        then show ?thesis
          using cond unfolding out last by auto
      next
        case (Text response)
        then have "?here = flagged_output loads literal_eval str_of (replies a)"
          using step lt k by simp
        then show ?thesis
          using cond unfolding out last by (auto split: option.splits)
      qed
    qed
  qed
qed

text \<open>
  C2, as the code has it. The fallback output has the error message as each of its four
  sentences and the signals VIOLATED, CATASTROPHIC and NEGATIVE, and its verdict is
  BLOCKED. When every attempt of \<open>analyze\<close> fails (the call raises, the response carries
  a block reason, its text cannot be read, the parser raises, the test after parsing
  raises or flags a parse error, or the construction of the output raises), \<open>analyze\<close>
  returns a fallback output, whose verdict is BLOCKED, but for one case: when no
  response carries a block reason and the text of the last attempt is read into a
  dictionary that is flagged as a parse error and from which the output can be built,
  \<open>analyze\<close> returns the output built from that dictionary. For a text that no step of
  the parser accepts that output is the parse-failure output, whose sentences are those
  of the parser's dictionary: it has the three worst-case signals and the verdict
  BLOCKED, and it is no fallback output.
\<close>

theorem analyze_sensors_failure_paths:
  assumes "\<forall>i < nat (max_retries + 1). attempt_fails loads literal_eval str_of (replies i)"
  shows "get_fallback_output error_msg
           = \<lparr> green = \<lparr> sentence = error_msg, signal = VIOLATED \<rparr>,
               red = \<lparr> sentence = error_msg, signal = CATASTROPHIC \<rparr>,
               blue = \<lparr> sentence = error_msg, signal = NEGATIVE \<rparr>,
               yellow = \<lparr> sentence = error_msg \<rparr> \<rparr>
       \<and> verdict (decide (extract_signals (get_fallback_output error_msg))) = BLOCKED
       \<and> (\<exists>out. analyze_sensors True loads literal_eval str_of replies max_retries = Inr out
             \<and> (case (if 0 \<le> max_retries
                          \<and> (\<forall>i < nat (max_retries + 1). \<forall>reason. replies i \<noteq> Blocked reason)
                       then flagged_output loads literal_eval str_of (replies (nat max_retries))
                       else None) of
                   Some built \<Rightarrow> out = built
                 | None \<Rightarrow>
                     (\<exists>msg. out = get_fallback_output msg)
                     \<and> signal (green out) = VIOLATED \<and> signal (red out) = CATASTROPHIC
                     \<and> signal (blue out) = NEGATIVE
                     \<and> verdict (decide (extract_signals out)) = BLOCKED))
       \<and> (parse_json loads literal_eval response = Inr parse_failure
          \<longrightarrow> flagged_output loads literal_eval str_of (Text response)
              = Some parse_failure_output)
       \<and> signal (green parse_failure_output) = VIOLATED
       \<and> signal (red parse_failure_output) = CATASTROPHIC
       \<and> signal (blue parse_failure_output) = NEGATIVE
       \<and> verdict (decide (extract_signals parse_failure_output)) = BLOCKED
       \<and> (\<forall>msg. get_fallback_output msg \<noteq> parse_failure_output)"
proof -
  let ?k = "nat (max_retries + 1)"
  let ?out = "sensor_attempts loads literal_eval str_of max_retries replies ?k 0"
  let ?sel = "if 0 \<le> max_retries
                 \<and> (\<forall>i < nat (max_retries + 1). \<forall>reason. replies i \<noteq> Blocked reason)
              then flagged_output loads literal_eval str_of (replies (nat max_retries))
              else None"
  have run: "analyze_sensors True loads literal_eval str_of replies max_retries = Inr ?out"
    by (simp add: analyze_sensors_def)
  have fb_signals: "signal (green (get_fallback_output msg)) = VIOLATED
      \<and> signal (red (get_fallback_output msg)) = CATASTROPHIC
      \<and> signal (blue (get_fallback_output msg)) = NEGATIVE" for msg
    by (simp add: get_fallback_output_def)
  have shape: "case ?sel of
                 Some built \<Rightarrow> ?out = built
               | None \<Rightarrow> (\<exists>msg. ?out = get_fallback_output msg)"
  proof (cases "0 \<le> max_retries")
    case False
    then have "?k = 0" by simp
    then have "?out = get_fallback_output
        ''Analysis failed after multiple attempts. Please try again.''"
      by simp
    with False show ?thesis by auto
  next
    case True
    then have idx: "int 0 + int ?k = max_retries + 1" by simp
    have all: "\<forall>i. 0 \<le> i \<and> i < 0 + ?k
                 \<longrightarrow> attempt_fails loads literal_eval str_of (replies i)"
      using assms by simp
    have last: "0 + ?k - 1 = nat max_retries" using True by simp
    have pos: "0 < ?k" using True by simp
    from sensor_attempts_all_fail [OF idx all] show ?thesis
      unfolding last using True pos by simp
  qed
  have out: "case ?sel of
               Some built \<Rightarrow> ?out = built
             | None \<Rightarrow>
                 (\<exists>msg. ?out = get_fallback_output msg)
                 \<and> signal (green ?out) = VIOLATED \<and> signal (red ?out) = CATASTROPHIC
                 \<and> signal (blue ?out) = NEGATIVE
                 \<and> verdict (decide (extract_signals ?out)) = BLOCKED"
  proof (cases ?sel)
    case None
    with shape obtain msg where "?out = get_fallback_output msg"
      by auto
    with None show ?thesis
      using fb_signals [of msg] fallback_blocked [of msg] by auto
  next
    case (Some built)
    with shape show ?thesis by simp
  qed
  have fb: "get_fallback_output error_msg
           = \<lparr> green = \<lparr> sentence = error_msg, signal = VIOLATED \<rparr>,
               red = \<lparr> sentence = error_msg, signal = CATASTROPHIC \<rparr>,
               blue = \<lparr> sentence = error_msg, signal = NEGATIVE \<rparr>,
               yellow = \<lparr> sentence = error_msg \<rparr> \<rparr>"
    by (simp add: get_fallback_output_def)
  have pf: "signal (green parse_failure_output) = VIOLATED
       \<and> signal (red parse_failure_output) = CATASTROPHIC
       \<and> signal (blue parse_failure_output) = NEGATIVE"
    by (simp add: parse_failure_output_def)
  have unp: "parse_json loads literal_eval response = Inr parse_failure
          \<longrightarrow> flagged_output loads literal_eval str_of (Text response)
              = Some parse_failure_output"
    by (simp add: flagged_output_unparsable)
  from run out have ex: "\<exists>out. analyze_sensors True loads literal_eval str_of replies max_retries
                               = Inr out
             \<and> (case ?sel of
                   Some built \<Rightarrow> out = built
                 | None \<Rightarrow>
                     (\<exists>msg. out = get_fallback_output msg)
                     \<and> signal (green out) = VIOLATED \<and> signal (red out) = CATASTROPHIC
                     \<and> signal (blue out) = NEGATIVE
                     \<and> verdict (decide (extract_signals out)) = BLOCKED)"
    by (intro exI [of _ ?out] conjI)
  from fb fallback_blocked [of error_msg] ex unp pf parse_failure_output_blocked
    fallback_not_parse_failure_output
  show ?thesis
    by blast
qed

theorem analyze_sensors_failure_paths_witness:
  \<open>(\<exists>msg. analyze_sensors True json_loads (\<lambda>t. None) (\<lambda>v. [])
             (\<lambda>i. if i = 0 then Text ''Sorry, I cannot help.''
                  else if i = 1 then Text ''[1]'' else CallFails) 2
           = Inr (get_fallback_output msg))
   \<and> analyze_sensors True json_loads (\<lambda>t. None) (\<lambda>v. [])
       (\<lambda>i. Text ''Sorry, I cannot help.'') 2
     = Inr parse_failure_output
   \<and> verdict (decide (extract_signals parse_failure_output)) = BLOCKED\<close>
proof -
  have p: \<open>parse_json json_loads (\<lambda>t. None) ''Sorry, I cannot help.'' = Inr parse_failure\<close>
    by code_simp
  have f0: \<open>attempt_fails json_loads (\<lambda>t. None) (\<lambda>v. []) (Text ''Sorry, I cannot help.'')\<close>
    by code_simp
  have f1: \<open>attempt_fails json_loads (\<lambda>t. None) (\<lambda>v. []) (Text ''[1]'')\<close>
    by code_simp
  have f2: \<open>attempt_fails json_loads (\<lambda>t. None) (\<lambda>v. []) CallFails\<close>
    by (simp add: attempt_fails_def)
  have h1: \<open>\<forall>i < nat (2 + 1).
             attempt_fails json_loads (\<lambda>t. None) (\<lambda>v. [])
               (if i = 0 then Text ''Sorry, I cannot help.''
                else if i = 1 then Text ''[1]'' else CallFails)\<close>
    using f0 f1 f2 by simp
  have s1: \<open>(if (0::int) \<le> 2
                \<and> (\<forall>i < nat (2 + 1). \<forall>reason.
                      (if i = 0 then Text ''Sorry, I cannot help.''
                       else if i = 1 then Text ''[1]'' else CallFails) \<noteq> Blocked reason)
             then flagged_output json_loads (\<lambda>t. None) (\<lambda>v. [])
                    (if nat 2 = 0 then Text ''Sorry, I cannot help.''
                     else if nat 2 = 1 then Text ''[1]'' else CallFails)
             else None) = None\<close>
    by (simp add: flagged_output_def)
  from analyze_sensors_failure_paths [OF h1, of "[]" "[]"]
  obtain out1 where
      o1: \<open>analyze_sensors True json_loads (\<lambda>t. None) (\<lambda>v. [])
             (\<lambda>i. if i = 0 then Text ''Sorry, I cannot help.''
                  else if i = 1 then Text ''[1]'' else CallFails) 2
           = Inr out1\<close>
    and c1: \<open>case (if (0::int) \<le> 2
                \<and> (\<forall>i < nat (2 + 1). \<forall>reason.
                      (if i = 0 then Text ''Sorry, I cannot help.''
                       else if i = 1 then Text ''[1]'' else CallFails) \<noteq> Blocked reason)
             then flagged_output json_loads (\<lambda>t. None) (\<lambda>v. [])
                    (if nat 2 = 0 then Text ''Sorry, I cannot help.''
                     else if nat 2 = 1 then Text ''[1]'' else CallFails)
             else None) of
           Some built \<Rightarrow> out1 = built
         | None \<Rightarrow>
             (\<exists>msg. out1 = get_fallback_output msg)
             \<and> signal (green out1) = VIOLATED \<and> signal (red out1) = CATASTROPHIC
             \<and> signal (blue out1) = NEGATIVE
             \<and> verdict (decide (extract_signals out1)) = BLOCKED\<close>
    by blast
  from c1 have \<open>\<exists>msg. out1 = get_fallback_output msg\<close>
    unfolding s1 by simp
  with o1 have 1: \<open>\<exists>msg. analyze_sensors True json_loads (\<lambda>t. None) (\<lambda>v. [])
             (\<lambda>i. if i = 0 then Text ''Sorry, I cannot help.''
                  else if i = 1 then Text ''[1]'' else CallFails) 2
           = Inr (get_fallback_output msg)\<close>
    by blast
  have h2: \<open>\<forall>i < nat (2 + 1).
             attempt_fails json_loads (\<lambda>t. None) (\<lambda>v. []) (Text ''Sorry, I cannot help.'')\<close>
    using f0 by simp
  from analyze_sensors_failure_paths
    [OF h2, where response = \<open>''Sorry, I cannot help.''\<close>] p
  have fl: \<open>flagged_output json_loads (\<lambda>t. None) (\<lambda>v. []) (Text ''Sorry, I cannot help.'')
             = Some parse_failure_output\<close>
    and v: \<open>verdict (decide (extract_signals parse_failure_output)) = BLOCKED\<close>
    by blast+
  have s2: \<open>(if (0::int) \<le> 2
                \<and> (\<forall>i < nat (2 + 1). \<forall>reason. Text ''Sorry, I cannot help.'' \<noteq> Blocked reason)
             then flagged_output json_loads (\<lambda>t. None) (\<lambda>v. [])
                    (Text ''Sorry, I cannot help.'')
             else None) = Some parse_failure_output\<close>
    using fl by simp
  from analyze_sensors_failure_paths [OF h2, of "[]" "[]"]
  obtain out2 where
      o2: \<open>analyze_sensors True json_loads (\<lambda>t. None) (\<lambda>v. [])
             (\<lambda>i. Text ''Sorry, I cannot help.'') 2
           = Inr out2\<close>
    and c2: \<open>case (if (0::int) \<le> 2
                \<and> (\<forall>i < nat (2 + 1). \<forall>reason. Text ''Sorry, I cannot help.'' \<noteq> Blocked reason)
             then flagged_output json_loads (\<lambda>t. None) (\<lambda>v. [])
                    (Text ''Sorry, I cannot help.'')
             else None) of
           Some built \<Rightarrow> out2 = built
         | None \<Rightarrow>
             (\<exists>msg. out2 = get_fallback_output msg)
             \<and> signal (green out2) = VIOLATED \<and> signal (red out2) = CATASTROPHIC
             \<and> signal (blue out2) = NEGATIVE
             \<and> verdict (decide (extract_signals out2)) = BLOCKED\<close>
    by blast
  from c2 have \<open>out2 = parse_failure_output\<close>
    unfolding s2 by simp
  with o2 have 2: \<open>analyze_sensors True json_loads (\<lambda>t. None) (\<lambda>v. [])
       (\<lambda>i. Text ''Sorry, I cannot help.'') 2
     = Inr parse_failure_output\<close>
    by simp
  from 1 2 v show ?thesis by blast
qed

text \<open>
  C2, as the claim states it, fails. With two retries and a language model that answers
  each of the three attempts with a plain sentence (which \<open>json.loads\<close> refuses, in
  which no brace is found to repair, and which \<open>ast.literal_eval\<close> refuses, not being a
  Python literal), the council has used all its attempts and returns an output whose
  green sentence differs from the three others: not the uniform fallback. And with a
  language model that answers each of the three attempts with an object that has a key
  \<open>error\<close> and the signals PASS, MANAGED and POSITIVE, the first two attempts are flagged
  as parse errors and tried again, and the third, the retries being used up, gives the
  output built from the object, on which the verdict is APPROVED.
\<close>

theorem analyze_sensors_unparsable_counterexample:
  \<open>analyze_sensors True json_loads (\<lambda>t. None) (\<lambda>v. [])
     (\<lambda>i. Text ''Sorry, I cannot help.'') 2
   = Inr \<lparr> green = \<lparr> sentence = ''Analysis unavailable - retrying may help'',
                     signal = VIOLATED \<rparr>,
           red = \<lparr> sentence = ''Analysis unavailable'', signal = CATASTROPHIC \<rparr>,
           blue = \<lparr> sentence = ''Analysis unavailable'', signal = NEGATIVE \<rparr>,
           yellow = \<lparr> sentence = ''Analysis unavailable'' \<rparr> \<rparr>
   \<and> ''Analysis unavailable - retrying may help'' \<noteq> ''Analysis unavailable''
   \<and> json_loads ''Sorry, I cannot help.'' = JSONDecodeError
   \<and> sensor_attempt json_loads (\<lambda>t. None) (\<lambda>v. []) 2 0
       (Text ''{"error": null, "green": {"sentence": "ok", "signal": "PASS"}, "red": {"sentence": "ok", "signal": "MANAGED"}, "blue": {"sentence": "ok", "signal": "POSITIVE"}, "yellow": {"sentence": "ok"}}'')
     = None
   \<and> sensor_attempt json_loads (\<lambda>t. None) (\<lambda>v. []) 2 1
       (Text ''{"error": null, "green": {"sentence": "ok", "signal": "PASS"}, "red": {"sentence": "ok", "signal": "MANAGED"}, "blue": {"sentence": "ok", "signal": "POSITIVE"}, "yellow": {"sentence": "ok"}}'')
     = None
   \<and> analyze_sensors True json_loads (\<lambda>t. None) (\<lambda>v. [])
       (\<lambda>i. Text ''{"error": null, "green": {"sentence": "ok", "signal": "PASS"}, "red": {"sentence": "ok", "signal": "MANAGED"}, "blue": {"sentence": "ok", "signal": "POSITIVE"}, "yellow": {"sentence": "ok"}}'') 2
     = Inr \<lparr> green = \<lparr> sentence = ''ok'', signal = PASS \<rparr>,
             red = \<lparr> sentence = ''ok'', signal = MANAGED \<rparr>,
             blue = \<lparr> sentence = ''ok'', signal = POSITIVE \<rparr>,
             yellow = \<lparr> sentence = ''ok'' \<rparr> \<rparr>
   \<and> verdict (decide (extract_signals
         \<lparr> green = \<lparr> sentence = ''ok'', signal = PASS \<rparr>,
           red = \<lparr> sentence = ''ok'', signal = MANAGED \<rparr>,
           blue = \<lparr> sentence = ''ok'', signal = POSITIVE \<rparr>,
           yellow = \<lparr> sentence = ''ok'' \<rparr> \<rparr>)) = APPROVED\<close>
  by code_simp

end
